theory Spec2Isabelle
  imports Complex_Main "HOL-Library.Word"
begin

section \<open>The Python binding of the Roche geometry routines (roche.cc)\<close>

text \<open>
  The file \<^verbatim>\<open>src/trm/roche/roche.cc\<close> is the Python/C++ interface of the Roche routines:
  each \<^verbatim>\<open>roche_*\<close> function parses its arguments, checks their ranges, calls one or more
  routines of the C++ library behind \<^verbatim>\<open>trm_roche.h\<close> and converts the result.

  Conventions of the embedding.
  \<^item> A C \<^verbatim>\<open>double\<close> (and an element of a \<^verbatim>\<open>float\<close> array) is a \<^typ>\<open>real\<close>. Comparisons are
    exact. An addition or subtraction of doubles is the exact result rounded to the nearest
    number with 53 significant bits, ties to even (\<open>fl_add\<close>, \<open>fl_sub\<close>); a division by 2 is
    exact. The exponent range is not bounded: overflow, underflow, infinities and NaN are
    outside the model.
  \<^item> A C \<^verbatim>\<open>int\<close> is a 32-bit word read as a signed number (\<open>sint\<close>).
  \<^item> \<^verbatim>\<open>PyArg_ParseTuple\<close> belongs to CPython. The model starts after a successful parse: the
    required arguments are plain values, each optional argument is an \<open>option\<close>, and an
    absent optional argument leaves the C variable at its initialiser.
  \<^item> The routines of namespace \<^verbatim>\<open>Roche\<close>, the default constructor of \<^verbatim>\<open>Subs::Vec3\<close> and numpy's
    allocator are not part of these sources. They are the fields of the record \<open>extern\<close>,
    a parameter of every binding. The routines are taken to be functions of their
    arguments (they receive the point \<^verbatim>\<open>r\<close> by reference and are taken not to change it,
    except \<^verbatim>\<open>strinit\<close> and \<^verbatim>\<open>strmnx\<close>, whose updated position and velocity are the result).
  \<^item> Every binding returns the list of external calls it made, in order, together with
    its outcome: \<open>Inl\<close> the Python error set before returning \<^verbatim>\<open>NULL\<close>, \<open>Inr\<close> the value built.
\<close>

subsection \<open>Floating-point arithmetic\<close>

text \<open>Rounding a real to the nearest integer, a tie going to the even neighbour.\<close>

definition round_half_even :: "real \<Rightarrow> int" where
  "round_half_even y =
     (let f = \<lfloor>y\<rfloor>; d = y - of_int f in
      if d < 1 / 2 then f else if 1 / 2 < d then f + 1 else if even f then f else f + 1)"

text \<open>
  Rounding to \<open>p\<close> significant bits: with \<open>2^e \<le> |x| < 2^(e+1)\<close> the neighbours of \<open>x\<close> are the
  multiples of \<open>2^(e-(p-1))\<close>. A \<^verbatim>\<open>double\<close> has 53 significant bits, a \<^verbatim>\<open>float\<close> has 24.
\<close>

definition round_to_prec :: "nat \<Rightarrow> real \<Rightarrow> real" where
  "round_to_prec p x =
     (if x = 0 then 0
      else (let ulp = 2 powr of_int (\<lfloor>log 2 \<bar>x\<bar>\<rfloor> - (int p - 1))
            in of_int (round_half_even (x / ulp)) * ulp))"

definition round_to_double :: "real \<Rightarrow> real" where
  "round_to_double x = round_to_prec 53 x"

definition round_to_float :: "real \<Rightarrow> real" where
  "round_to_float x = round_to_prec 24 x"

text \<open>The numbers with at most \<open>p\<close> significant bits.\<close>

definition representable :: "nat \<Rightarrow> real \<Rightarrow> bool" where
  "representable p x = (\<exists>n k. \<bar>n\<bar> \<le> 2 ^ p \<and> x = of_int n * 2 powr of_int k)"

definition is_double :: "real \<Rightarrow> bool" where
  "is_double x = representable 53 x"

text \<open>The C expressions \<^verbatim>\<open>a + b\<close> and \<^verbatim>\<open>a - b\<close> on doubles.\<close>

definition fl_add :: "real \<Rightarrow> real \<Rightarrow> real" where
  "fl_add a b = round_to_double (a + b)"

definition fl_sub :: "real \<Rightarrow> real \<Rightarrow> real" where
  "fl_sub a b = round_to_double (a - b)"

subsection \<open>Data\<close>

type_synonym c_int = "32 word"

text \<open>\<^verbatim>\<open>Subs::Vec3\<close>, read through \<^verbatim>\<open>x()\<close>, \<^verbatim>\<open>y()\<close>, \<^verbatim>\<open>z()\<close>.\<close>

record vec3 =
  vec_x :: real
  vec_y :: real
  vec_z :: real

datatype star = PRIMARY | SECONDARY

text \<open>The exception classes of the C API; this file only ever names \<^verbatim>\<open>PyExc_ValueError\<close>.\<close>

datatype exc_type = PyExc_ValueError | PyExc_TypeError | PyExc_MemoryError | PyExc_RuntimeError

text \<open>
  \<open>PyErr t msg\<close> is \<^verbatim>\<open>PyErr_SetString(t, msg); return NULL;\<close>. \<open>Pending_numpy_error\<close> is the
  \<^verbatim>\<open>if(r == NULL) return NULL;\<close> after \<^verbatim>\<open>PyArray_SimpleNew\<close>: the error is the one numpy left.
\<close>

datatype py_error = PyErr exc_type string | Pending_numpy_error

text \<open>
  A numpy array of floats: its shape, its elements in row-major order, and its reference
  count (\<^verbatim>\<open>ob_refcnt\<close>), the number of owners of the object.
\<close>

record ndarray =
  dims :: "nat list"
  data :: "real list"
  ob_refcnt :: nat

text \<open>The external calls a binding makes, with the arguments that identify them.\<close>

datatype event =
    E_fblink real real real vec3 star real real
  | E_ingress_egress real real real vec3 real star
  | E_PyArray_SimpleNew "nat list"
  | E_lobe1 real c_int
  | E_lobe2 real c_int
  | E_vlobe1 real c_int
  | E_vlobe2 real c_int
  | E_streamr real real c_int
  | E_vstrreg real real c_int c_int
  | E_strinit real
  | E_strmnx real real
  | E_vtrans real c_int
  | E_xl1 real
  | E_xl2 real
  | E_xl3 real

text \<open>
  The external routines, with the argument order of their calls in roche.cc.
  \<^item> \<open>Roche_fblink q iangle phi r star ffac acc\<close>: the eclipse test.
  \<^item> \<open>Roche_ingress_egress q ffac iangle r delta star\<close>: \<open>None\<close> when the routine returns
    false, \<open>Some (ingress, egress)\<close> the two output arguments otherwise.
  \<^item> \<open>Roche_lobe1 q n\<close> and the other curve routines: the contents of the two buffers
    \<^verbatim>\<open>x\<close> and \<^verbatim>\<open>y\<close> after the call, by index.
  \<^item> \<open>Roche_vstrreg q step n stype\<close>: \<open>Inl msg\<close> when it throws \<^verbatim>\<open>Roche_Error\<close> with text \<open>msg\<close>.
  \<^item> \<open>Roche_strinit q\<close>: the initial position and velocity; \<open>Roche_strmnx q (r, v) acc\<close>: the
    position and velocity after the call.
  \<^item> \<open>Roche_vtrans q type x y vx vy\<close>: the two output arguments.
  \<^item> \<open>Roche_xl1 q\<close>, \<open>Roche_xl2 q\<close>, \<open>Roche_xl3 q\<close>: the double returned.
  \<^item> \<open>PyArray_SimpleNew_ok shape\<close>: whether the allocation of an array of that shape succeeds.
\<close>

record extern =
  Vec3_default :: vec3
  Roche_fblink :: "real \<Rightarrow> real \<Rightarrow> real \<Rightarrow> vec3 \<Rightarrow> star \<Rightarrow> real \<Rightarrow> real \<Rightarrow> bool"
  Roche_ingress_egress :: "real \<Rightarrow> real \<Rightarrow> real \<Rightarrow> vec3 \<Rightarrow> real \<Rightarrow> star \<Rightarrow> (real \<times> real) option"
  PyArray_SimpleNew_ok :: "nat list \<Rightarrow> bool"
  Roche_lobe1 :: "real \<Rightarrow> c_int \<Rightarrow> (nat \<Rightarrow> real) \<times> (nat \<Rightarrow> real)"
  Roche_lobe2 :: "real \<Rightarrow> c_int \<Rightarrow> (nat \<Rightarrow> real) \<times> (nat \<Rightarrow> real)"
  Roche_vlobe1 :: "real \<Rightarrow> c_int \<Rightarrow> (nat \<Rightarrow> real) \<times> (nat \<Rightarrow> real)"
  Roche_vlobe2 :: "real \<Rightarrow> c_int \<Rightarrow> (nat \<Rightarrow> real) \<times> (nat \<Rightarrow> real)"
  Roche_streamr :: "real \<Rightarrow> real \<Rightarrow> c_int \<Rightarrow> (nat \<Rightarrow> real) \<times> (nat \<Rightarrow> real)"
  Roche_vstrreg :: "real \<Rightarrow> real \<Rightarrow> c_int \<Rightarrow> c_int \<Rightarrow> string + (nat \<Rightarrow> real) \<times> (nat \<Rightarrow> real)"
  Roche_strinit :: "real \<Rightarrow> vec3 \<times> vec3"
  Roche_strmnx :: "real \<Rightarrow> vec3 \<times> vec3 \<Rightarrow> real \<Rightarrow> vec3 \<times> vec3"
  Roche_vtrans :: "real \<Rightarrow> c_int \<Rightarrow> real \<Rightarrow> real \<Rightarrow> real \<Rightarrow> real \<Rightarrow> real \<times> real"
  Roche_xl1 :: "real \<Rightarrow> real"
  Roche_xl2 :: "real \<Rightarrow> real"
  Roche_xl3 :: "real \<Rightarrow> real"

text \<open>An optional argument of \<^verbatim>\<open>PyArg_ParseTuple\<close>: the initialiser stays when it is absent.\<close>

definition supplied_or :: "'a \<Rightarrow> 'a option \<Rightarrow> 'a" where
  "supplied_or init arg = (case arg of None \<Rightarrow> init | Some v \<Rightarrow> v)"

definition value_error :: "string \<Rightarrow> event list \<times> (py_error + 'a)" where
  "value_error msg = ([], Inl (PyErr PyExc_ValueError msg))"

subsection \<open>findq (lines 12-57)\<close>

text \<open>
  The three calls of \<^verbatim>\<open>Roche::fblink\<close> in \<^verbatim>\<open>roche_findq\<close> differ in the mass ratio only:
  \<^verbatim>\<open>Roche::fblink(q, iangle, phi, r, Roche::SECONDARY, 1.0, acc)\<close> with the default-constructed \<^verbatim>\<open>r\<close>.
\<close>

definition findq_tester :: "extern \<Rightarrow> real \<Rightarrow> real \<Rightarrow> real \<Rightarrow> real \<Rightarrow> bool" where
  "findq_tester E iangle phi acc q =
     Roche_fblink E q iangle phi (Vec3_default E) SECONDARY 1 acc"

definition findq_call :: "extern \<Rightarrow> real \<Rightarrow> real \<Rightarrow> real \<Rightarrow> real \<Rightarrow> event" where
  "findq_call E iangle phi acc q = E_fblink q iangle phi (Vec3_default E) SECONDARY 1 acc"

text \<open>
  The loop \<^verbatim>\<open>while(qhi - qlo > dq)\<close> of lines 47-53, from the bracket \<open>(qlo, qhi)\<close> and the
  calls made so far to the final bracket. The difference and the sum are computed in
  double arithmetic. A loop that does not end has the value \<open>None\<close>.
\<close>

partial_function (option) findq_loop ::
  "extern \<Rightarrow> real \<Rightarrow> real \<Rightarrow> real \<Rightarrow> real \<Rightarrow> real \<Rightarrow> real \<Rightarrow> event list
     \<Rightarrow> (real \<times> real \<times> event list) option"
where
  "findq_loop E iangle phi acc dq qlo qhi tr =
     (if fl_sub qhi qlo > dq then
        (let q = fl_add qlo qhi / 2 in
         if findq_tester E iangle phi acc q
         then findq_loop E iangle phi acc dq qlo q (tr @ [findq_call E iangle phi acc q])
         else findq_loop E iangle phi acc dq q qhi (tr @ [findq_call E iangle phi acc q]))
      else Some (qlo, qhi, tr))"

definition roche_findq ::
  "extern \<Rightarrow> real \<Rightarrow> real \<Rightarrow> real option \<Rightarrow> real option \<Rightarrow> real option \<Rightarrow> real option
     \<Rightarrow> (event list \<times> (py_error + real)) option"
where
  "roche_findq E iangle pwidth acc_arg dq_arg qlo_arg qhi_arg =
     (let acc = supplied_or 0.0001 acc_arg;
          dq = supplied_or 0.00001 dq_arg;
          qlo = supplied_or 0.001 qlo_arg;
          qhi = supplied_or 2 qhi_arg
      in
      if iangle \<le> 0 \<or> iangle > 90 then
        Some (value_error ''roche.findq: iangle out of range 0 to 90'')
      else if pwidth \<le> 0 \<or> pwidth > 0.25 then
        Some (value_error ''roche.findq: pwidth out of range 0 to 0.25'')
      else if acc \<le> 0 \<or> acc > 0.1 then
        Some (value_error ''roche.findq: acc <= 0 or acc > 0.1'')
      else if dq \<le> 0 \<or> dq > 0.1 then
        Some (value_error ''roche.findq: dq <= 0 or dq > 0.1'')
      else
        (let phi = pwidth / 2;
             elo = findq_tester E iangle phi acc qlo;
             ehi = findq_tester E iangle phi acc qhi;
             tr = [findq_call E iangle phi acc qlo, findq_call E iangle phi acc qhi]
         in
         if elo \<and> ehi then Some (tr, Inr (- 2))
         else if \<not> elo \<and> \<not> ehi then Some (tr, Inr (- 1))
         else
           (case findq_loop E iangle phi acc dq qlo qhi tr of
              None \<Rightarrow> None
            | Some (lo, hi, tr') \<Rightarrow> Some (tr', Inr (fl_add lo hi / 2)))))"

text \<open>The documentation string of \<^verbatim>\<open>findq\<close> in the method table (line 478).\<close>

definition findq_doc :: string where
  "findq_doc = ''findq(i, pwidth, acc=1.e-4, dq=1.e-5, qlo=0.005, qhi=2.), computes mass ratio q for a given phase width and inclination''"

subsection \<open>fblink (lines 62-100) and ineg (lines 105-143)\<close>

text \<open>\<^verbatim>\<open>star == 1 ? Roche::PRIMARY : Roche::SECONDARY\<close>\<close>

definition star_of :: "c_int \<Rightarrow> star" where
  "star_of s = (if s = 1 then PRIMARY else SECONDARY)"

definition roche_fblink ::
  "extern \<Rightarrow> real \<Rightarrow> real \<Rightarrow> real \<Rightarrow> real \<Rightarrow> real \<Rightarrow> real \<Rightarrow> real option \<Rightarrow> real option \<Rightarrow> c_int option
     \<Rightarrow> event list \<times> (py_error + int)"
where
  "roche_fblink E q iangle phi x y z ffac_arg acc_arg star_arg =
     (let ffac = supplied_or 1 ffac_arg;
          acc = supplied_or 0.0001 acc_arg;
          star = supplied_or 2 star_arg
      in
      if q \<le> 0 then value_error ''roche.fblink: q <= 0''
      else if iangle \<le> 0 \<or> iangle > 90 then
        value_error ''roche.fblink: iangle out of range 0 to 90''
      else if ffac \<le> 0 \<or> ffac > 1 then value_error ''roche.fblink: ffac out of range 0 to 1''
      else if acc \<le> 0 \<or> acc > 0.1 then value_error ''roche.fblink: acc <= 0 or acc > 0.1''
      else if sint star < 1 \<or> sint star > 2 then
        value_error ''roche.fblink: star must be either 1 or 2''
      else
        (let r = \<lparr>vec_x = x, vec_y = y, vec_z = z\<rparr> in
         ([E_fblink q iangle phi r (star_of star) ffac acc],
          Inr (if Roche_fblink E q iangle phi r (star_of star) ffac acc then 1 else 0))))"

definition roche_ineg ::
  "extern \<Rightarrow> real \<Rightarrow> real \<Rightarrow> real \<Rightarrow> real \<Rightarrow> real \<Rightarrow> real option \<Rightarrow> real option \<Rightarrow> c_int option
     \<Rightarrow> event list \<times> (py_error + real \<times> real)"
where
  "roche_ineg E q iangle x y z ffac_arg delta_arg star_arg =
     (let ffac = supplied_or 1 ffac_arg;
          delta = supplied_or 0.0000001 delta_arg;
          star = supplied_or 2 star_arg
      in
      if q \<le> 0 then value_error ''roche.ineg: q <= 0''
      else if iangle \<le> 0 \<or> iangle > 90 then
        value_error ''roche.ineg: iangle out of range 0 to 90''
      else if ffac \<le> 0 \<or> ffac > 1 then value_error ''roche.ineg: ffac out of range 0 to 1''
      else if delta \<le> 0 then value_error ''roche.ineg: delta <= 0''
      else if sint star < 1 \<or> sint star > 2 then
        value_error ''roche.ineg: star must be either 1 or 2''
      else
        (let r = \<lparr>vec_x = x, vec_y = y, vec_z = z\<rparr> in
         case Roche_ingress_egress E q ffac iangle r delta (star_of star) of
           None \<Rightarrow>
             ([E_ingress_egress q ffac iangle r delta (star_of star)],
              Inl (PyErr PyExc_ValueError ''roche.ineg: point is not eclipsed''))
         | Some (ingress, egress) \<Rightarrow>
             ([E_ingress_egress q ffac iangle r delta (star_of star)], Inr (ingress, egress))))"

subsection \<open>The curve routines: lobe1, lobe2, stream, vlobe1, vlobe2, vstream\<close>

text \<open>
  \<^verbatim>\<open>PyArray_SimpleNew(2, dim, PyArray_FLOAT)\<close> on success: a new array of the shape \<^verbatim>\<open>dim\<close>, with
  one reference, held by the binding. numpy leaves the elements uninitialised; they are 0
  here and every one is overwritten below. The binding never increments the count and
  hands its one reference to the caller with \<^verbatim>\<open>return PyArray_Return(r)\<close>, which for an array
  of two dimensions is \<^verbatim>\<open>r\<close> itself.
\<close>

definition PyArray_SimpleNew :: "nat list \<Rightarrow> ndarray" where
  "PyArray_SimpleNew shape = \<lparr>dims = shape, data = replicate (prod_list shape) 0, ob_refcnt = 1\<rparr>"

text \<open>
  The effect of a curve routine called with \<^verbatim>\<open>x = (float*)r->data\<close>, \<^verbatim>\<open>y = x + n\<close> and \<^verbatim>\<open>n\<close>:
  element \<open>i < n\<close> of the array's data holds \<open>x[i]\<close>, element \<open>n + i\<close> holds \<open>y[i]\<close>; the shape and
  the number of elements do not change.
\<close>

definition write_xy :: "c_int \<Rightarrow> (nat \<Rightarrow> real) \<times> (nat \<Rightarrow> real) \<Rightarrow> ndarray \<Rightarrow> ndarray" where
  "write_xy n xy a =
     a\<lparr>data :=
        map (\<lambda>i. if i < nat (sint n) then fst xy i
                  else if i < 2 * nat (sint n) then snd xy (i - nat (sint n))
                  else data a ! i)
            [0..<length (data a)]\<rparr>"

text \<open>Lines 165-178 (and the same lines of the other curve bindings), after the checks.\<close>

definition curve_array ::
  "extern \<Rightarrow> c_int \<Rightarrow> event \<Rightarrow> (nat \<Rightarrow> real) \<times> (nat \<Rightarrow> real) \<Rightarrow> event list \<times> (py_error + ndarray)"
where
  "curve_array E n call xy =
     (let shape = [2, nat (sint n)] in
      if \<not> PyArray_SimpleNew_ok E shape then ([E_PyArray_SimpleNew shape], Inl Pending_numpy_error)
      else ([E_PyArray_SimpleNew shape, call], Inr (write_xy n xy (PyArray_SimpleNew shape))))"

definition roche_lobe1 :: "extern \<Rightarrow> real \<Rightarrow> c_int option \<Rightarrow> event list \<times> (py_error + ndarray)" where
  "roche_lobe1 E q n_arg =
     (let n = supplied_or 200 n_arg in
      if q \<le> 0 then value_error ''roche.lobe1: q <= 0''
      else if sint n < 2 then value_error ''roche.lobe1: n < 2''
      else curve_array E n (E_lobe1 q n) (Roche_lobe1 E q n))"

definition roche_lobe2 :: "extern \<Rightarrow> real \<Rightarrow> c_int option \<Rightarrow> event list \<times> (py_error + ndarray)" where
  "roche_lobe2 E q n_arg =
     (let n = supplied_or 200 n_arg in
      if q \<le> 0 then value_error ''roche.lobe2: q <= 0''
      else if sint n < 2 then value_error ''roche.lobe2: n < 2 in''
      else curve_array E n (E_lobe2 q n) (Roche_lobe2 E q n))"

definition roche_stream ::
  "extern \<Rightarrow> real \<Rightarrow> real \<Rightarrow> c_int option \<Rightarrow> event list \<times> (py_error + ndarray)"
where
  "roche_stream E q rad n_arg =
     (let n = supplied_or 200 n_arg in
      if q \<le> 0 then value_error ''roche.stream: q <= 0''
      else if rad < 0 \<or> rad > 1 then value_error ''roche.stream: rad < 0 or > 1.''
      else if sint n < 2 then value_error ''roche.stream: n < 2''
      else curve_array E n (E_streamr q rad n) (Roche_streamr E q rad n))"

definition roche_vlobe1 :: "extern \<Rightarrow> real \<Rightarrow> c_int option \<Rightarrow> event list \<times> (py_error + ndarray)" where
  "roche_vlobe1 E q n_arg =
     (let n = supplied_or 200 n_arg in
      if q \<le> 0 then value_error ''roche.vlobe1: q <= 0''
      else if sint n < 2 then value_error ''roche.vlobe1: n < 2''
      else curve_array E n (E_vlobe1 q n) (Roche_vlobe1 E q n))"

definition roche_vlobe2 :: "extern \<Rightarrow> real \<Rightarrow> c_int option \<Rightarrow> event list \<times> (py_error + ndarray)" where
  "roche_vlobe2 E q n_arg =
     (let n = supplied_or 200 n_arg in
      if q \<le> 0 then value_error ''roche.vlobe2: q <= 0''
      else if sint n < 2 then value_error ''roche.vlobe2: n < 2''
      else curve_array E n (E_vlobe2 q n) (Roche_vlobe2 E q n))"

text \<open>
  \<^verbatim>\<open>roche_vstream\<close> (lines 372-418). The test of \<^verbatim>\<open>stype\<close> is written with \<^verbatim>\<open>&&\<close> in the source.
  \<^verbatim>\<open>Roche::vstrreg\<close> is called inside \<^verbatim>\<open>try\<close>; a \<^verbatim>\<open>Roche_Error\<close> becomes a \<^verbatim>\<open>ValueError\<close> whose
  text is \<^verbatim>\<open>"roche.vstream: " + err\<close>.
\<close>

definition roche_vstream ::
  "extern \<Rightarrow> real \<Rightarrow> real option \<Rightarrow> c_int option \<Rightarrow> c_int option
     \<Rightarrow> event list \<times> (py_error + ndarray)"
where
  "roche_vstream E q step_arg stype_arg n_arg =
     (let step = supplied_or 0.01 step_arg;
          stype = supplied_or 1 stype_arg;
          n = supplied_or 60 n_arg
      in
      if q \<le> 0 then value_error ''roche.vstream: q <= 0''
      else if step \<le> 0 \<or> step \<ge> 1 then value_error ''roche.vstream: step <= 0 or >= 1.''
      else if sint stype < 1 \<and> sint stype > 2 then
        value_error ''roche.vstream: stype must be 1 or 2''
      else if sint n < 2 then value_error ''roche.vstream: n < 2''
      else
        (let shape = [2, nat (sint n)] in
         if \<not> PyArray_SimpleNew_ok E shape then
           ([E_PyArray_SimpleNew shape], Inl Pending_numpy_error)
         else
           (case Roche_vstrreg E q step n stype of
              Inl err \<Rightarrow>
                ([E_PyArray_SimpleNew shape, E_vstrreg q step n stype],
                 Inl (PyErr PyExc_ValueError (''roche.vstream: '' @ err)))
            | Inr vxy \<Rightarrow>
                ([E_PyArray_SimpleNew shape, E_vstrreg q step n stype],
                 Inr (write_xy n vxy (PyArray_SimpleNew shape))))))"

text \<open>The coordinate pairs of a 2-by-n array: column \<open>i\<close> is \<open>(x[i], y[i])\<close>.\<close>

definition pairs_of :: "ndarray \<Rightarrow> (real \<times> real) list" where
  "pairs_of a = zip (take (dims a ! 1) (data a)) (drop (dims a ! 1) (data a))"

subsection \<open>strmnx (lines 264-291)\<close>

text \<open>
  The loop \<^verbatim>\<open>for(int i=0; i<n; i++) Roche::strmnx(q, r, v, acc);\<close> from the counter \<open>i\<close>, the
  position and velocity, and the calls made so far. It is entered with \<open>i = 0\<close>.
\<close>

function strmnx_loop ::
  "extern \<Rightarrow> real \<Rightarrow> real \<Rightarrow> c_int \<Rightarrow> c_int \<Rightarrow> vec3 \<times> vec3 \<Rightarrow> event list
     \<Rightarrow> (vec3 \<times> vec3) \<times> event list"
where
  "strmnx_loop E q acc n i rv tr =
     (if sint i < sint n
      then strmnx_loop E q acc n (i + 1) (Roche_strmnx E q rv acc) (tr @ [E_strmnx q acc])
      else (rv, tr))"
  by pat_completeness auto
termination
proof (relation "measure (\<lambda>(E, q, acc, n, i, rv, tr). nat (sint n - sint i))")
  show "wf (measure (\<lambda>(E, q, acc, n, i, rv, tr). nat (sint n - sint i)))"
    by simp
next
  fix E :: extern and q acc :: real and n i :: c_int and rv :: "vec3 \<times> vec3" and tr :: "event list"
  assume lt: "sint i < sint n"
  have "sint n < 2 ^ (LENGTH(32) - 1)" by (rule sint_lt)
  with lt have hi: "sint i + 1 < 2 ^ (LENGTH(32) - 1)" by simp
  have lo: "- (2 ^ (LENGTH(32) - 1)) \<le> sint i" by (rule sint_ge)
  have "sint (i + 1) = signed_take_bit (LENGTH(32) - 1) (sint i + sint (1 :: c_int))"
    by (rule sint_word_ariths)
  also have "\<dots> = sint i + 1"
    using hi lo by (simp add: signed_take_bit_int_eq_self)
  finally have "sint (i + 1) = sint i + 1" .
  with lt show "((E, q, acc, n, i + 1, Roche_strmnx E q rv acc, tr @ [E_strmnx q acc]),
                 (E, q, acc, n, i, rv, tr))
                  \<in> measure (\<lambda>(E, q, acc, n, i, rv, tr). nat (sint n - sint i))"
    by simp
qed

declare strmnx_loop.simps [simp del]

definition roche_strmnx ::
  "extern \<Rightarrow> real \<Rightarrow> c_int option \<Rightarrow> real option
     \<Rightarrow> event list \<times> (py_error + real \<times> real \<times> real \<times> real \<times> real \<times> real)"
where
  "roche_strmnx E q n_arg acc_arg =
     (let n = supplied_or 1 n_arg;
          acc = supplied_or 0.0000001 acc_arg
      in
      if q < 0 then value_error ''roche.strmnx: q <= 0''
      else if sint n < 1 then value_error ''roche.strmnx: n < 1''
      else if acc \<le> 0 then value_error ''roche.strmnx: acc <= 0''
      else
        (let (rv, tr) = strmnx_loop E q acc n 0 (Roche_strinit E q) [E_strinit q];
             r = fst rv;
             v = snd rv;
             (tvx1, tvy1) = Roche_vtrans E q 1 (vec_x r) (vec_y r) (vec_x v) (vec_y v);
             (tvx2, tvy2) = Roche_vtrans E q 2 (vec_x r) (vec_y r) (vec_x v) (vec_y v)
         in (tr @ [E_vtrans q 1, E_vtrans q 2],
             Inr (vec_x r, vec_y r, tvx1, tvy1, tvx2, tvy2))))"

subsection \<open>xl1, xl2, xl3 (lines 423-469)\<close>

text \<open>
  \<^verbatim>\<open>Py_BuildValue("f", x)\<close> with a C \<^verbatim>\<open>double x\<close>. \<^verbatim>\<open>Py_BuildValue\<close> belongs to CPython: it reads
  the argument of the format unit \<^verbatim>\<open>"f"\<close> as a C \<^verbatim>\<open>double\<close>, as it does for \<^verbatim>\<open>"d"\<close> (an argument
  passed through \<^verbatim>\<open>...\<close> is never a \<^verbatim>\<open>float\<close>), and builds a Python float, which holds a C
  \<^verbatim>\<open>double\<close>. The value is not changed.
\<close>

definition Py_BuildValue_f :: "real \<Rightarrow> real" where
  "Py_BuildValue_f x = x"

definition roche_xl1 :: "extern \<Rightarrow> real \<Rightarrow> event list \<times> (py_error + real)" where
  "roche_xl1 E q =
     (if q < 0 then value_error ''roche.xl1: q <= 0''
      else ([E_xl1 q], Inr (Py_BuildValue_f (Roche_xl1 E q))))"

definition roche_xl2 :: "extern \<Rightarrow> real \<Rightarrow> event list \<times> (py_error + real)" where
  "roche_xl2 E q =
     (if q < 0 then value_error ''roche.xl2: q <= 0''
      else ([E_xl2 q], Inr (Py_BuildValue_f (Roche_xl2 E q))))"

definition roche_xl3 :: "extern \<Rightarrow> real \<Rightarrow> event list \<times> (py_error + real)" where
  "roche_xl3 E q =
     (if q < 0 then value_error ''roche.cl3: q <= 0''
      else ([E_xl3 q], Inr (Py_BuildValue_f (Roche_xl3 E q))))"

subsection \<open>Properties to be checked, and stand-ins for the external routines\<close>


text \<open>
  "The array is 2-by-n and holds exactly \<open>n\<close> coordinate pairs", the \<open>i\<close>-th being what the
  routine left in \<open>x[i]\<close> and \<open>y[i]\<close>.
\<close>

definition holds_n_pairs :: "nat \<Rightarrow> (nat \<Rightarrow> real) \<times> (nat \<Rightarrow> real) \<Rightarrow> ndarray \<Rightarrow> bool" where
  "holds_n_pairs n xy a =
     (dims a = [2, n] \<and> length (data a) = 2 * n \<and> length (pairs_of a) = n
      \<and> pairs_of a = map (\<lambda>i. (fst xy i, snd xy i)) [0..<n])"

text \<open>The exception class of an outcome, when it is an error set by \<^verbatim>\<open>PyErr_SetString\<close>.\<close>

fun exc_type_of :: "event list \<times> (py_error + 'a) \<Rightarrow> exc_type option" where
  "exc_type_of (tr, Inl (PyErr t msg)) = Some t"
| "exc_type_of (tr, Inl Pending_numpy_error) = None"
| "exc_type_of (tr, Inr v) = None"

text \<open>
  The routines of namespace \<^verbatim>\<open>Roche\<close> are not in these sources. To run the bindings on
  concrete arguments, \<open>demo_extern\<close> supplies simple stand-ins: a point is eclipsed when the
  mass ratio is at least 3/2; a point with \<open>z > 1\<close> is never eclipsed; the stream in velocity
  space cannot be sampled more than 100 times; every allocation succeeds; the inner
  Lagrangian point is at the double nearest to 1/3. \<open>demo_reversed\<close> differs in the eclipse
  test only: a point is eclipsed when the mass ratio is below 3/2.
\<close>

definition demo_extern :: extern where
  "demo_extern =
     \<lparr>Vec3_default = \<lparr>vec_x = 0, vec_y = 0, vec_z = 0\<rparr>,
      Roche_fblink = (\<lambda>q iangle phi r star ffac acc. 3 / 2 \<le> q),
      Roche_ingress_egress =
        (\<lambda>q ffac iangle r delta star. if 1 < vec_z r then None else Some (- delta, delta)),
      PyArray_SimpleNew_ok = (\<lambda>shape. True),
      Roche_lobe1 = (\<lambda>q n. (\<lambda>i. real i, \<lambda>i. q)),
      Roche_lobe2 = (\<lambda>q n. (\<lambda>i. 1 - real i, \<lambda>i. q)),
      Roche_vlobe1 = (\<lambda>q n. (\<lambda>i. q, \<lambda>i. real i)),
      Roche_vlobe2 = (\<lambda>q n. (\<lambda>i. q, \<lambda>i. 1 - real i)),
      Roche_streamr = (\<lambda>q rad n. (\<lambda>i. rad, \<lambda>i. real i)),
      Roche_vstrreg =
        (\<lambda>q step n stype.
           if 100 < sint n then Inl ''too few points''
           else Inr (\<lambda>i. step * real i, \<lambda>i. real_of_int (sint stype))),
      Roche_strinit =
        (\<lambda>q. (\<lparr>vec_x = q, vec_y = 0, vec_z = 0\<rparr>, \<lparr>vec_x = 0, vec_y = 1, vec_z = 0\<rparr>)),
      Roche_strmnx =
        (\<lambda>q rv acc. (\<lparr>vec_x = vec_x (fst rv) + 1, vec_y = vec_y (fst rv), vec_z = 0\<rparr>, snd rv)),
      Roche_vtrans = (\<lambda>q type x y vx vy. (vx + x, vy + real_of_int (sint type))),
      Roche_xl1 = (\<lambda>q. 6004799503160661 / 2 ^ 54),
      Roche_xl2 = (\<lambda>q. 1 + q),
      Roche_xl3 = (\<lambda>q. - 1 - q)\<rparr>"


section \<open>Lemmas\<close>

subsection \<open>Rounding\<close>

lemma rhe_cases:
  "round_half_even y = \<lfloor>y\<rfloor> \<or> round_half_even y = \<lfloor>y\<rfloor> + 1"
  by (simp add: round_half_even_def Let_def)

lemma rhe_error: "\<bar>of_int (round_half_even y) - y\<bar> \<le> 1 / 2"
proof -
  have "of_int \<lfloor>y\<rfloor> \<le> y" "y < of_int \<lfloor>y\<rfloor> + 1" by linarith+
  then show ?thesis
    by (auto simp add: round_half_even_def Let_def abs_le_iff)
qed

lemma rhe_of_int: "round_half_even (of_int n) = n"
  by (simp add: round_half_even_def)

lemma rhe_mono:
  assumes "x \<le> y"
  shows "round_half_even x \<le> round_half_even y"
proof -
  have fl: "\<lfloor>x\<rfloor> \<le> \<lfloor>y\<rfloor>" using assms by (rule floor_mono)
  show ?thesis
  proof (cases "\<lfloor>x\<rfloor> = \<lfloor>y\<rfloor>")
    case True
    with assms show ?thesis
      by (auto simp add: round_half_even_def Let_def)
  next
    case False
    with fl have "\<lfloor>x\<rfloor> + 1 \<le> \<lfloor>y\<rfloor>" by simp
    moreover have "round_half_even x \<le> \<lfloor>x\<rfloor> + 1" using rhe_cases [of x] by auto
    moreover have "\<lfloor>y\<rfloor> \<le> round_half_even y" using rhe_cases [of y] by auto
    ultimately show ?thesis by linarith
  qed
qed

lemma floor_minus_nonint:
  fixes y :: real
  assumes "y \<noteq> of_int \<lfloor>y\<rfloor>"
  shows "\<lfloor>- y\<rfloor> = - \<lfloor>y\<rfloor> - 1"
proof (rule floor_unique)
  have "of_int \<lfloor>y\<rfloor> \<le> y" "y < of_int \<lfloor>y\<rfloor> + 1" by linarith+
  with assms have "of_int \<lfloor>y\<rfloor> < y" by linarith
  then have lt: "of_int \<lfloor>y\<rfloor> < y" .
  have up: "y < of_int \<lfloor>y\<rfloor> + 1" by linarith
  have "of_int (- \<lfloor>y\<rfloor> - 1) = - of_int \<lfloor>y\<rfloor> - (1::real)" by simp
  with up show "of_int (- \<lfloor>y\<rfloor> - 1) \<le> - y" by linarith
  have "of_int (- \<lfloor>y\<rfloor> - 1) + 1 = - (of_int \<lfloor>y\<rfloor> :: real)" by simp
  with lt show "- y < of_int (- \<lfloor>y\<rfloor> - 1) + 1" by linarith
qed

lemma rhe_minus: "round_half_even (- y) = - round_half_even y"
proof (cases "y = of_int \<lfloor>y\<rfloor>")
  case True
  then obtain n where n: "y = of_int n" ..
  then have "- y = of_int (- n)" by simp
  then show ?thesis using n by (simp only: rhe_of_int)
next
  case False
  have fm: "\<lfloor>- y\<rfloor> = - \<lfloor>y\<rfloor> - 1" using False by (rule floor_minus_nonint)
  have "of_int \<lfloor>y\<rfloor> \<le> y" by linarith
  with False have lt: "of_int \<lfloor>y\<rfloor> < y" by linarith
  define f where "f = \<lfloor>y\<rfloor>"
  define d where "d = y - of_int f"
  have l: "round_half_even y = (if d < 1 / 2 then f else if 1 / 2 < d then f + 1 else if even f then f else f + 1)"
    by (simp add: round_half_even_def Let_def f_def d_def)
  have "- y - of_int (- f - 1) = 1 - d" by (simp add: d_def)
  then have r: "round_half_even (- y) = (if 1 - d < 1 / 2 then - f - 1 else if 1 / 2 < 1 - d then - f else if even (- f - 1) then - f - 1 else - f)"
    by (simp add: round_half_even_def Let_def fm f_def [symmetric])
  show ?thesis unfolding l r by auto
qed

lemma two_powr_int_add: "(2::real) powr of_int (a + b) = 2 powr of_int a * 2 powr of_int b"
  by (simp add: powr_add)

lemma two_powr_nat: "(2::real) powr of_int (int p) = 2 ^ p"
  by (simp add: powr_realpow)

lemma binade:
  fixes x :: real
  assumes "0 < x"
  shows "2 powr of_int \<lfloor>log 2 x\<rfloor> \<le> x" and "x < 2 powr of_int (\<lfloor>log 2 x\<rfloor> + 1)"
proof -
  have x: "2 powr log 2 x = x" using assms by simp
  have "of_int \<lfloor>log 2 x\<rfloor> \<le> log 2 x" by linarith
  then have "2 powr of_int \<lfloor>log 2 x\<rfloor> \<le> 2 powr log 2 x" by (simp only: powr_le_cancel_iff [of 2] one_less_numeral_iff semiring_norm)
  with x show "2 powr of_int \<lfloor>log 2 x\<rfloor> \<le> x" by simp
  have "log 2 x < of_int (\<lfloor>log 2 x\<rfloor> + 1)" by simp
  then have "2 powr log 2 x < 2 powr of_int (\<lfloor>log 2 x\<rfloor> + 1)" by (simp only: powr_less_cancel_iff [of 2] one_less_numeral_iff semiring_norm)
  with x show "x < 2 powr of_int (\<lfloor>log 2 x\<rfloor> + 1)" by simp
qed

lemma binade_unique:
  fixes x :: real
  assumes "0 < x" "2 powr of_int e \<le> x" "x < 2 powr of_int (e + 1)"
  shows "\<lfloor>log 2 x\<rfloor> = e"
proof (rule floor_unique)
  show "of_int e \<le> log 2 x" using assms(1,2) by (simp add: le_log_iff)
  have "log 2 x < of_int (e + 1)" using assms(1,3) by (simp add: log_less_iff)
  then show "log 2 x < of_int e + 1" by simp
qed

lemma rtp_zero: "round_to_prec p 0 = 0"
  by (simp add: round_to_prec_def)

lemma rtp_minus: "round_to_prec p (- x) = - round_to_prec p x"
  by (simp add: round_to_prec_def Let_def rhe_minus)

lemma rtp_error: "\<bar>round_to_prec p x - x\<bar> \<le> \<bar>x\<bar> / 2 ^ p"
proof (cases "x = 0")
  case True
  then show ?thesis by (simp add: rtp_zero)
next
  case False
  define e where "e = \<lfloor>log 2 \<bar>x\<bar>\<rfloor>"
  define u :: real where "u = 2 powr of_int (e - (int p - 1))"
  have u0: "0 < u" by (simp add: u_def)
  have r: "round_to_prec p x = of_int (round_half_even (x / u)) * u"
    using False by (simp add: round_to_prec_def Let_def u_def e_def)
  have "round_to_prec p x - x = (of_int (round_half_even (x / u)) - x / u) * u"
    using u0 by (simp add: r field_simps)
  then have "\<bar>round_to_prec p x - x\<bar> = \<bar>of_int (round_half_even (x / u)) - x / u\<bar> * u"
    using u0 by (simp add: abs_mult)
  also have "\<dots> \<le> (1 / 2) * u"
    using rhe_error [of "x / u"] u0 by (intro mult_right_mono) simp_all
  finally have b: "\<bar>round_to_prec p x - x\<bar> \<le> u / 2" by simp
  have "u * 2 powr of_int (int p - 1) = 2 powr of_int e"
    unfolding u_def by (simp add: powr_add [symmetric])
  moreover have "(2::real) powr of_int (int p - 1) * 2 = 2 ^ p"
    using two_powr_int_add [of "int p - 1" 1] by (simp add: two_powr_nat [symmetric])
  ultimately have "u / 2 * 2 ^ p = 2 powr of_int e"
    by (metis (no_types, opaque_lifting) mult.assoc mult.commute nonzero_mult_div_cancel_right
        times_divide_eq_left zero_neq_numeral)
  moreover have "2 powr of_int e \<le> \<bar>x\<bar>"
    using binade(1) [of "\<bar>x\<bar>"] False by (simp add: e_def)
  ultimately have "u / 2 * 2 ^ p \<le> \<bar>x\<bar>" by simp
  then have "u / 2 \<le> \<bar>x\<bar> / 2 ^ p" by (simp add: pos_le_divide_eq)
  with b show ?thesis by linarith
qed

lemma rtp_of_integral_quotient:
  assumes "x \<noteq> 0"
    and "x / 2 powr of_int (\<lfloor>log 2 \<bar>x\<bar>\<rfloor> - (int p - 1)) = of_int m"
  shows "round_to_prec p x = x"
proof -
  define u :: real where "u = 2 powr of_int (\<lfloor>log 2 \<bar>x\<bar>\<rfloor> - (int p - 1))"
  have u0: "u \<noteq> 0" by (simp add: u_def)
  have q: "x / u = of_int m" using assms(2) by (simp add: u_def)
  have "round_to_prec p x = of_int (round_half_even (x / u)) * u"
    using assms(1) by (simp add: round_to_prec_def Let_def u_def)
  also have "\<dots> = (x / u) * u" by (simp only: q rhe_of_int)
  also have "\<dots> = x" using u0 by simp
  finally show ?thesis .
qed

lemma rtp_exact_pos:
  assumes "0 < p" "0 < n" "n \<le> 2 ^ p"
  shows "round_to_prec p (of_int n * 2 powr of_int k) = of_int n * 2 powr of_int k"
proof -
  define x :: real where "x = of_int n * 2 powr of_int k"
  define e where "e = \<lfloor>log 2 \<bar>x\<bar>\<rfloor>"
  have x0: "0 < x" using assms(2) by (simp add: x_def)
  have lo: "2 powr of_int e \<le> x" using binade(1) [of x] x0 by (simp add: e_def)
  have "(of_int n :: real) \<le> 2 ^ p" using assms(3) by (metis of_int_le_iff of_int_numeral of_int_power)
  then have "x \<le> 2 ^ p * 2 powr of_int k" unfolding x_def by (intro mult_right_mono) simp_all
  also have "\<dots> = 2 powr of_int (int p + k)" by (simp only: two_powr_int_add two_powr_nat)
  finally have "2 powr of_int e \<le> (2::real) powr of_int (int p + k)" using lo by linarith
  then have ek: "e \<le> int p + k" by simp
  define j where "j = k - e + int p - 1"
  have quot: "x / 2 powr of_int (e - (int p - 1)) = of_int n * 2 powr of_int j"
    unfolding x_def j_def by (simp add: powr_diff powr_add field_simps)
  have "\<exists>m::int. of_int n * (2::real) powr of_int j = of_int m"
  proof (cases "0 \<le> j")
    case True
    then have "(2::real) powr of_int j = 2 ^ nat j"
      using two_powr_nat [of "nat j"] by simp
    then have "of_int n * (2::real) powr of_int j = of_int (n * 2 ^ nat j)" by simp
    then show ?thesis ..
  next
    case False
    with ek have j: "j = - 1" and e: "e = int p + k" by (simp_all add: j_def)
    have "2 powr of_int (int p + k) \<le> of_int n * (2::real) powr of_int k"
      using lo by (simp add: e x_def)
    then have "(2::real) ^ p * 2 powr of_int k \<le> of_int n * 2 powr of_int k"
      by (simp only: two_powr_int_add two_powr_nat)
    then have "(2::real) ^ p \<le> of_int n" by simp
    then have "2 ^ p \<le> n" by (metis of_int_le_iff of_int_numeral of_int_power)
    with assms(3) have n: "n = 2 ^ p" by simp
    obtain p' where p': "p = Suc p'" using assms(1) by (cases p) simp_all
    have "of_int n * (2::real) powr of_int j = of_int (2 ^ p')"
      by (simp add: n j p' powr_minus)
    then show ?thesis ..
  qed
  then obtain m :: int where "x / 2 powr of_int (e - (int p - 1)) = of_int m"
    using quot by auto
  then have "round_to_prec p x = x"
    using x0 unfolding e_def by (intro rtp_of_integral_quotient [of x p m]) simp_all
  then show ?thesis by (simp only: x_def)
qed

lemma rtp_exact:
  assumes "0 < p" "\<bar>n\<bar> \<le> 2 ^ p"
  shows "round_to_prec p (of_int n * 2 powr of_int k) = of_int n * 2 powr of_int k"
proof -
  consider "n = 0" | "0 < n" | "n < 0" by linarith
  then show ?thesis
  proof cases
    case 1
    then show ?thesis by (simp add: rtp_zero)
  next
    case 2
    with assms show ?thesis by (intro rtp_exact_pos) simp_all
  next
    case 3
    with assms have "round_to_prec p (of_int (- n) * 2 powr of_int k) = of_int (- n) * 2 powr of_int k"
      by (intro rtp_exact_pos) simp_all
    then have "round_to_prec p (- (of_int n * 2 powr of_int k)) = - (of_int n * 2 powr of_int k)"
      by simp
    then show ?thesis by (simp only: rtp_minus neg_equal_iff_equal)
  qed
qed

lemma two_powr_shift: "(2::real) powr of_int (a - int n) * 2 ^ n = 2 powr of_int a"
proof -
  have "(2::real) powr of_int (a - int n) * 2 powr of_int (int n) = 2 powr of_int ((a - int n) + int n)"
    by (rule two_powr_int_add [symmetric])
  then show ?thesis by (simp only: two_powr_nat diff_add_cancel)
qed

lemma rtp_pos_form:
  assumes "0 < p" "0 < x"
  shows "\<exists>n. 2 ^ (p - 1) \<le> n \<and> n \<le> 2 ^ p
           \<and> round_to_prec p x = of_int n * 2 powr of_int (\<lfloor>log 2 x\<rfloor> - (int p - 1))"
proof -
  define e where "e = \<lfloor>log 2 x\<rfloor>"
  define u :: real where "u = 2 powr of_int (e - (int p - 1))"
  define y where "y = x / u"
  have u0: "0 < u" by (simp add: u_def)
  obtain p' where p': "p = Suc p'" using assms(1) by (cases p) simp_all
  have u': "u = 2 powr of_int (e - int p')" "u = 2 powr of_int ((e + 1) - int p)"
    by (simp_all add: u_def p')
  have ue: "u * 2 ^ p' = 2 powr of_int e"
    unfolding u'(1) by (rule two_powr_shift)
  have ue1: "u * 2 ^ p = 2 powr of_int (e + 1)"
    unfolding u'(2) by (rule two_powr_shift)
  have "2 powr of_int e \<le> x" "x < 2 powr of_int (e + 1)"
    using binade [OF assms(2)] by (simp_all add: e_def)
  then have "u * 2 ^ p' \<le> x" "x < u * 2 ^ p" by (simp_all only: ue ue1)
  then have "2 ^ p' \<le> y" "y \<le> 2 ^ p"
    using u0 by (simp_all add: y_def pos_le_divide_eq pos_divide_le_eq mult.commute)
  then have "round_half_even (of_int (2 ^ p')) \<le> round_half_even y"
    "round_half_even y \<le> round_half_even (of_int (2 ^ p))"
    by (simp_all add: rhe_mono)
  then have n: "2 ^ (p - 1) \<le> round_half_even y" "round_half_even y \<le> 2 ^ p"
    by (simp_all only: rhe_of_int p' diff_Suc_1)
  have "round_to_prec p x = of_int (round_half_even y) * u"
    using assms(2) by (simp add: round_to_prec_def Let_def u_def e_def y_def)
  with n show ?thesis unfolding u_def e_def by blast
qed





lemma rtp_representable:
  assumes "0 < p"
  shows "representable p (round_to_prec p x)"
proof -
  have pos: "representable p (round_to_prec p x)" if "0 < x" for x
  proof -
    from rtp_pos_form [OF assms that] obtain n :: int where
      "2 ^ (p - 1) \<le> n" "n \<le> 2 ^ p"
      "round_to_prec p x = of_int n * 2 powr of_int (\<lfloor>log 2 x\<rfloor> - (int p - 1))"
      by blast
    moreover from this have "\<bar>n\<bar> \<le> 2 ^ p"
    proof -
      have "(0::int) \<le> 2 ^ (p - 1)" by simp
      with \<open>2 ^ (p - 1) \<le> n\<close> have "0 \<le> n" by linarith
      with \<open>n \<le> 2 ^ p\<close> show ?thesis by simp
    qed
    ultimately show ?thesis unfolding representable_def by blast
  qed
  consider "x = 0" | "0 < x" | "0 < - x" by linarith
  then show ?thesis
  proof cases
    case 1
    have "\<bar>0::int\<bar> \<le> 2 ^ p" "round_to_prec p x = of_int 0 * 2 powr of_int 0"
      using 1 by (simp_all add: rtp_zero)
    then show ?thesis unfolding representable_def by blast
  next
    case 2
    then show ?thesis by (rule pos)
  next
    case 3
    from pos [OF this] obtain n k where "\<bar>n\<bar> \<le> 2 ^ p"
      "round_to_prec p (- x) = of_int n * 2 powr of_int k"
      unfolding representable_def by blast
    then have "\<bar>- n\<bar> \<le> 2 ^ p" "round_to_prec p x = of_int (- n) * 2 powr of_int k"
      by (simp_all add: rtp_minus)
    then show ?thesis unfolding representable_def by blast
  qed
qed

lemma representable_fixed: "0 < p \<Longrightarrow> representable p x \<Longrightarrow> round_to_prec p x = x"
  unfolding representable_def using rtp_exact by blast

lemma representable_half: "representable p x \<Longrightarrow> representable p (x / 2)"
proof -
  assume "representable p x"
  then obtain n k where n: "\<bar>n\<bar> \<le> 2 ^ p" and x: "x = of_int n * 2 powr of_int k"
    unfolding representable_def by blast
  have "x / 2 = of_int n * 2 powr of_int (k - 1)"
    by (simp add: x powr_diff)
  with n show ?thesis unfolding representable_def by blast
qed


lemma rd_error: "\<bar>round_to_double x - x\<bar> \<le> \<bar>x\<bar> / 2 ^ 53"
  unfolding round_to_double_def by (rule rtp_error)


lemma rd_fixed: "is_double x \<Longrightarrow> round_to_double x = x"
  unfolding round_to_double_def is_double_def by (rule representable_fixed) simp_all

lemma is_double_rd: "is_double (round_to_double x)"
  unfolding round_to_double_def is_double_def by (rule rtp_representable) simp

lemma is_double_mid: "is_double (fl_add a b / 2)"
  unfolding fl_add_def using is_double_rd [of "a + b"]
  unfolding is_double_def by (rule representable_half)


subsection \<open>The loop of findq\<close>

lemma findq_step_bounds:
  assumes "0 < dq" "M \<le> 2 ^ 40 * dq" "qlo \<le> qhi" "\<bar>qlo\<bar> \<le> M" "\<bar>qhi\<bar> \<le> M"
    and "fl_sub qhi qlo > dq"
  shows "qlo < fl_add qlo qhi / 2" and "fl_add qlo qhi / 2 < qhi"
    and "fl_add qlo qhi / 2 - qlo \<le> (qhi - qlo) - dq / 8"
    and "qhi - fl_add qlo qhi / 2 \<le> (qhi - qlo) - dq / 8"
proof -
  define w where "w = qhi - qlo"
  define s where "s = qlo + qhi"
  define q where "q = round_to_double s / 2"
  have w0: "0 \<le> w" using assms(3) by (simp add: w_def)
  have "\<bar>round_to_double w - w\<bar> \<le> w / 2 ^ 53"
    using rd_error [of w] w0 by simp
  moreover have "w / 2 ^ 53 \<le> w" using w0 by (simp add: field_simps)
  ultimately have "round_to_double w \<le> 2 * w" by linarith
  moreover have "dq < round_to_double w" using assms(6) by (simp add: fl_sub_def w_def)
  ultimately have wd: "dq / 2 < w" by linarith
  have "\<bar>s\<bar> \<le> 2 * M" using assms(4,5) by (simp add: s_def)
  then have "\<bar>s\<bar> / 2 ^ 53 \<le> (2 * M) / 2 ^ 53" by (rule divide_right_mono) simp
  also have "\<dots> \<le> (2 * (2 ^ 40 * dq)) / 2 ^ 53"
    using assms(2) by (intro divide_right_mono) simp_all
  also have "\<dots> = dq / 4096" by simp
  finally have "\<bar>round_to_double s - s\<bar> \<le> dq / 4096"
    using rd_error [of s] by linarith
  then have e: "\<bar>q - s / 2\<bar> \<le> dq / 8192" unfolding q_def by linarith
  have s2: "s / 2 = qlo + w / 2" "s / 2 = qhi - w / 2" by (simp_all add: s_def w_def field_simps)
  have fq: "fl_add qlo qhi / 2 = q" by (simp add: fl_add_def q_def s_def)
  show "qlo < fl_add qlo qhi / 2" using e s2 wd assms(1) unfolding fq by linarith
  show "fl_add qlo qhi / 2 < qhi" using e s2 wd assms(1) unfolding fq by linarith
  show "fl_add qlo qhi / 2 - qlo \<le> (qhi - qlo) - dq / 8"
    using e s2 wd assms(1) unfolding fq w_def [symmetric] by linarith
  show "qhi - fl_add qlo qhi / 2 \<le> (qhi - qlo) - dq / 8"
    using e s2 wd assms(1) unfolding fq w_def [symmetric] by linarith
qed

lemma step_measure:
  fixes w w' c :: real
  assumes "0 < c" "0 < w" "w' \<le> w - c"
  shows "nat \<lceil>w' / c\<rceil> < nat \<lceil>w / c\<rceil>"
proof -
  have "w' / c \<le> (w - c) / c" using assms(1,3) by (simp add: divide_right_mono)
  also have "\<dots> = w / c - 1" using assms(1) by (simp add: field_simps)
  finally have "\<lceil>w' / c\<rceil> \<le> \<lceil>w / c - 1\<rceil>" by (rule ceiling_mono)
  then have le: "\<lceil>w' / c\<rceil> \<le> \<lceil>w / c\<rceil> - 1" by simp
  have "0 < w / c" using assms(1,2) by simp
  then have "0 < \<lceil>w / c\<rceil>" by simp
  with le show ?thesis by linarith
qed

lemma findq_loop_skip:
  "fl_sub qhi qlo \<le> dq \<Longrightarrow> findq_loop E iangle phi acc dq qlo qhi tr = Some (qlo, qhi, tr)"
  by (subst findq_loop.simps) simp

lemma findq_loop_spec:
  assumes "0 < dq" "M \<le> 2 ^ 40 * dq"
  shows "qlo \<le> qhi \<Longrightarrow> \<bar>qlo\<bar> \<le> M \<Longrightarrow> \<bar>qhi\<bar> \<le> M \<Longrightarrow>
         \<exists>lo hi ext. findq_loop E iangle phi acc dq qlo qhi tr = Some (lo, hi, tr @ ext)
           \<and> fl_sub hi lo \<le> dq
           \<and> qlo \<le> lo \<and> lo \<le> hi \<and> hi \<le> qhi
           \<and> (\<not> findq_tester E iangle phi acc qlo \<and> findq_tester E iangle phi acc qhi
                \<longrightarrow> \<not> findq_tester E iangle phi acc lo \<and> findq_tester E iangle phi acc hi)
           \<and> (is_double qlo \<and> is_double qhi \<longrightarrow> is_double lo \<and> is_double hi)"
proof (induction "nat \<lceil>(qhi - qlo) / (dq / 8)\<rceil>" arbitrary: qlo qhi tr rule: less_induct)
  case less
  show ?case
  proof (cases "fl_sub qhi qlo > dq")
    case False
    then have "findq_loop E iangle phi acc dq qlo qhi tr = Some (qlo, qhi, tr @ [])"
      by (simp add: findq_loop_skip)
    with False less.prems(1) show ?thesis by force
  next
    case True
    define q where "q = fl_add qlo qhi / 2"
    define c where "c = findq_call E iangle phi acc q"
    note b = findq_step_bounds [OF assms less.prems True, folded q_def]
    have qM: "\<bar>q\<bar> \<le> M" using b(1,2) less.prems(2,3) by linarith
    have c0: "0 < dq / 8" using assms(1) by simp
    have w0: "0 < qhi - qlo" using b(1,2) by linarith
    have qd: "is_double q" unfolding q_def by (rule is_double_mid)
    show ?thesis
    proof (cases "findq_tester E iangle phi acc q")
      case tq: True
      have step: "findq_loop E iangle phi acc dq qlo qhi tr
                = findq_loop E iangle phi acc dq qlo q (tr @ [c])"
        using True tq by (subst findq_loop.simps) (simp add: q_def c_def Let_def)
      have m: "nat \<lceil>(q - qlo) / (dq / 8)\<rceil> < nat \<lceil>(qhi - qlo) / (dq / 8)\<rceil>"
        using c0 w0 b(3) by (rule step_measure)
      have "qlo \<le> q" using b(1) by simp
      from less.hyps [OF m this less.prems(2) qM, of "tr @ [c]"]
      obtain lo hi ext where
        r: "findq_loop E iangle phi acc dq qlo q (tr @ [c]) = Some (lo, hi, (tr @ [c]) @ ext)"
        and w: "fl_sub hi lo \<le> dq"
        and i: "qlo \<le> lo" "lo \<le> hi" "hi \<le> q"
        and t: "\<not> findq_tester E iangle phi acc qlo \<and> findq_tester E iangle phi acc q
                \<longrightarrow> \<not> findq_tester E iangle phi acc lo \<and> findq_tester E iangle phi acc hi"
        and d: "is_double qlo \<and> is_double q \<longrightarrow> is_double lo \<and> is_double hi"
        by blast
      from step r have "findq_loop E iangle phi acc dq qlo qhi tr = Some (lo, hi, tr @ (c # ext))"
        by simp
      moreover have "hi \<le> qhi" using i(3) b(2) by linarith
      ultimately show ?thesis
        using w i(1,2) t d tq qd by blast
    next
      case tq: False
      have step: "findq_loop E iangle phi acc dq qlo qhi tr
                = findq_loop E iangle phi acc dq q qhi (tr @ [c])"
        using True tq by (subst findq_loop.simps) (simp add: q_def c_def Let_def)
      have m: "nat \<lceil>(qhi - q) / (dq / 8)\<rceil> < nat \<lceil>(qhi - qlo) / (dq / 8)\<rceil>"
        using c0 w0 b(4) by (rule step_measure)
      have "q \<le> qhi" using b(2) by simp
      from less.hyps [OF m this qM less.prems(3), of "tr @ [c]"]
      obtain lo hi ext where
        r: "findq_loop E iangle phi acc dq q qhi (tr @ [c]) = Some (lo, hi, (tr @ [c]) @ ext)"
        and w: "fl_sub hi lo \<le> dq"
        and i: "q \<le> lo" "lo \<le> hi" "hi \<le> qhi"
        and t: "\<not> findq_tester E iangle phi acc q \<and> findq_tester E iangle phi acc qhi
                \<longrightarrow> \<not> findq_tester E iangle phi acc lo \<and> findq_tester E iangle phi acc hi"
        and d: "is_double q \<and> is_double qhi \<longrightarrow> is_double lo \<and> is_double hi"
        by blast
      from step r have "findq_loop E iangle phi acc dq qlo qhi tr = Some (lo, hi, tr @ (c # ext))"
        by simp
      moreover have "qlo \<le> lo" using i(1) b(1) by linarith
      ultimately show ?thesis
        using w i(2,3) t d tq qd by blast
    qed
  qed
qed


lemma is_double_dyadic: "\<bar>n\<bar> \<le> 2 ^ 53 \<Longrightarrow> is_double (of_int n / 2 ^ k)"
proof -
  assume n: "\<bar>n\<bar> \<le> 2 ^ 53"
  have "(of_int n :: real) / 2 ^ k = of_int n * 2 powr of_int (- int k)"
    by (simp add: powr_minus powr_realpow divide_inverse)
  with n show ?thesis unfolding is_double_def representable_def by blast
qed

lemma rd_dyadic: "\<bar>n\<bar> \<le> 2 ^ 53 \<Longrightarrow> round_to_double (of_int n / 2 ^ k) = of_int n / 2 ^ k"
  by (rule rd_fixed) (rule is_double_dyadic)

lemma rd_values:
  "round_to_double 1 = 1" "round_to_double (1 / 2) = 1 / 2" "round_to_double (1 / 4) = 1 / 4"
  "round_to_double (1 / 8) = 1 / 8" "round_to_double (1 / 16) = 1 / 16"
  "round_to_double 3 = 3" "round_to_double (5 / 2) = 5 / 2" "round_to_double (11 / 4) = 11 / 4"
  "round_to_double (23 / 8) = 23 / 8" "round_to_double (47 / 16) = 47 / 16"
  "round_to_double (7 / 2) = 7 / 2" "round_to_double (15 / 4) = 15 / 4"
  "round_to_double (31 / 8) = 31 / 8" "round_to_double (63 / 16) = 63 / 16"
  "round_to_double (- 1) = - 1" "round_to_double (- (3 / 4)) = - (3 / 4)"
  "round_to_double (13 / 4) = 13 / 4"
  using rd_dyadic [of 1 0] rd_dyadic [of 1 1] rd_dyadic [of 1 2] rd_dyadic [of 1 3]
    rd_dyadic [of 1 4] rd_dyadic [of 3 0] rd_dyadic [of 5 1] rd_dyadic [of 11 2]
    rd_dyadic [of 23 3] rd_dyadic [of 47 4] rd_dyadic [of 7 1] rd_dyadic [of 15 2]
    rd_dyadic [of 31 3] rd_dyadic [of 63 4] rd_dyadic [of "- 1" 0] rd_dyadic [of "- 3" 2]
    rd_dyadic [of 13 2]
  by simp_all

lemma rtp_in_binade:
  assumes "0 < x" "2 powr of_int e \<le> x" "x < 2 powr of_int (e + 1)"
  shows "round_to_prec p x
           = of_int (round_half_even (x / 2 powr of_int (e - (int p - 1))))
               * 2 powr of_int (e - (int p - 1))"
proof -
  have "\<lfloor>log 2 \<bar>x\<bar>\<rfloor> = e" using assms by (simp add: binade_unique)
  with assms(1) show ?thesis by (simp add: round_to_prec_def Let_def)
qed



lemma float_of_third:
  "round_to_float (6004799503160661 / 2 ^ 54) = 11184811 / 2 ^ 25"
proof -
  have "round_to_prec 24 (6004799503160661 / 2 ^ 54)
          = of_int (round_half_even ((6004799503160661 / 2 ^ 54) / 2 powr of_int (- 2 - (int 24 - 1))))
              * 2 powr of_int (- 2 - (int 24 - 1))"
    by (rule rtp_in_binade) (simp_all add: powr_minus)
  also have "\<dots> = 11184811 / 2 ^ 25"
    by (simp add: round_half_even_def Let_def powr_minus)
  finally show ?thesis by (simp only: round_to_float_def)
qed

lemma supplied_or_simps:
  "supplied_or init None = init" "supplied_or init (Some v) = v"
  by (simp_all add: supplied_or_def)

lemma findq_doc_qlo: "\<exists>pre post. findq_doc = pre @ ''qlo=0.005'' @ post"
proof -
  have "findq_doc = ''findq(i, pwidth, acc=1.e-4, dq=1.e-5, '' @ ''qlo=0.005''
          @ '', qhi=2.), computes mass ratio q for a given phase width and inclination''"
    by (simp add: findq_doc_def)
  then show ?thesis by blast
qed

lemma roche_findq_returns:
  assumes "0 < iangle" "iangle \<le> 90" "0 < pwidth" "pwidth \<le> 0.25"
    and "0 < acc" "acc \<le> 0.1" "0 < dq" "dq \<le> 0.1"
    and "qlo \<le> qhi" "\<bar>qlo\<bar> \<le> 2 ^ 40 * dq" "\<bar>qhi\<bar> \<le> 2 ^ 40 * dq"
  shows "\<exists>ext q. roche_findq E iangle pwidth (Some acc) (Some dq) (Some qlo) (Some qhi)
           = Some (findq_call E iangle (pwidth / 2) acc qlo
                     # findq_call E iangle (pwidth / 2) acc qhi # ext, Inr q)"
proof -
  let ?tr = "[findq_call E iangle (pwidth / 2) acc qlo, findq_call E iangle (pwidth / 2) acc qhi]"
  have "(2 ^ 40 * dq :: real) \<le> 2 ^ 40 * dq" by simp
  from findq_loop_spec [OF \<open>0 < dq\<close> this assms(9-11), of E iangle "pwidth / 2" acc ?tr]
  obtain lo hi ext where
    run: "findq_loop E iangle (pwidth / 2) acc dq qlo qhi ?tr = Some (lo, hi, ?tr @ ext)"
    by blast
  have "\<exists>q. fl_add lo hi = q * 2"
    by (rule exI [of _ "fl_add lo hi / 2"]) simp
  then show ?thesis
    using assms(1-8) run by (simp add: roche_findq_def supplied_or_simps Let_def)
qed



subsection \<open>Arrays and the loop of strmnx\<close>

lemma write_xy_new_data:
  "data (write_xy n xy (PyArray_SimpleNew [2, nat (sint n)]))
     = map (fst xy) [0..<nat (sint n)] @ map (snd xy) [0..<nat (sint n)]"
  by (rule nth_equalityI) (auto simp add: write_xy_def PyArray_SimpleNew_def nth_append)

lemma write_xy_new_dims:
  "dims (write_xy n xy (PyArray_SimpleNew [2, nat (sint n)])) = [2, nat (sint n)]"
  by (simp add: write_xy_def PyArray_SimpleNew_def)

lemma write_xy_new_pairs:
  "holds_n_pairs (nat (sint n)) xy (write_xy n xy (PyArray_SimpleNew [2, nat (sint n)]))"
  unfolding holds_n_pairs_def pairs_of_def write_xy_new_data write_xy_new_dims
  by (simp add: zip_map_map zip_same_conv_map)

lemma write_xy_new_refcnt:
  "ob_refcnt (write_xy n xy (PyArray_SimpleNew shape)) = 1"
  by (simp add: write_xy_def PyArray_SimpleNew_def)

lemma curve_array_ok:
  assumes "PyArray_SimpleNew_ok E [2, nat (sint n)]"
  shows "\<exists>a. curve_array E n call xy = ([E_PyArray_SimpleNew [2, nat (sint n)], call], Inr a)
            \<and> holds_n_pairs (nat (sint n)) xy a \<and> ob_refcnt a = 1"
  using assms write_xy_new_pairs [of n xy] write_xy_new_refcnt [of n xy "[2, nat (sint n)]"]
  by (simp add: curve_array_def Let_def)

lemma stype_test_dead: "(sint (stype :: c_int) < 1 \<and> sint stype > 2) = False"
  by auto

lemma sint_succ:
  fixes i n :: c_int
  assumes "sint i < sint n"
  shows "sint (i + 1) = sint i + 1"
proof -
  have "sint n < 2 ^ (LENGTH(32) - 1)" by (rule sint_lt)
  with assms have hi: "sint i + 1 < 2 ^ (LENGTH(32) - 1)" by simp
  have lo: "- (2 ^ (LENGTH(32) - 1)) \<le> sint i" by (rule sint_ge)
  have "sint (i + 1) = signed_take_bit (LENGTH(32) - 1) (sint i + sint (1 :: c_int))"
    by (rule sint_word_ariths)
  also have "\<dots> = sint i + 1"
    using hi lo by (simp add: signed_take_bit_int_eq_self)
  finally show ?thesis .
qed

lemma strmnx_loop_iterates:
  "sint i \<le> sint n \<Longrightarrow>
   strmnx_loop E q acc n i rv tr
     = (((\<lambda>s. Roche_strmnx E q s acc) ^^ nat (sint n - sint i)) rv,
        tr @ replicate (nat (sint n - sint i)) (E_strmnx q acc))"
proof (induction E q acc n i rv tr rule: strmnx_loop.induct)
  case (1 E q acc n i rv tr)
  show ?case
  proof (cases "sint i < sint n")
    case False
    with "1.prems" have "sint n - sint i = 0" by simp
    with False show ?thesis by (subst strmnx_loop.simps) simp
  next
    case True
    have s: "sint (i + 1) = sint i + 1" using True by (rule sint_succ)
    have k: "nat (sint n - sint i) = Suc (nat (sint n - sint (i + 1)))"
      using True s by simp
    have le: "sint (i + 1) \<le> sint n" using True s by simp
    have "strmnx_loop E q acc n i rv tr
            = strmnx_loop E q acc n (i + 1) (Roche_strmnx E q rv acc) (tr @ [E_strmnx q acc])"
      using True by (subst strmnx_loop.simps) simp
    also have "\<dots> = (((\<lambda>s. Roche_strmnx E q s acc) ^^ nat (sint n - sint (i + 1)))
                        (Roche_strmnx E q rv acc),
                      (tr @ [E_strmnx q acc]) @ replicate (nat (sint n - sint (i + 1))) (E_strmnx q acc))"
      using "1.IH" [OF True le] .
    also have "\<dots> = (((\<lambda>s. Roche_strmnx E q s acc) ^^ nat (sint n - sint i)) rv,
                      tr @ replicate (nat (sint n - sint i)) (E_strmnx q acc))"
      unfolding k by (simp only: funpow_Suc_right o_apply replicate_Suc append_assoc append.simps)
    finally show ?thesis .
  qed
qed

section \<open>The claims\<close>

subsection \<open>findq\<close>

text \<open>
  C1. For every inclination, phase width, accuracy and step tolerance that pass the checks of
  \<^verbatim>\<open>roche_findq\<close> and every bracket: when the eclipse test holds at both \<open>qlo\<close> and \<open>qhi\<close> the
  result is exactly \<open>-2\<close>; when it fails at both the result is exactly \<open>-1\<close>. In both cases the
  eclipse test is called at the two ends only: no bisection step is made.
\<close>

theorem findq_degenerate_sentinels:
  assumes "0 < iangle" "iangle \<le> 90" "0 < pwidth" "pwidth \<le> 0.25"
    and "0 < acc" "acc \<le> 0.1" "0 < dq" "dq \<le> 0.1"
  shows "(findq_tester E iangle (pwidth / 2) acc qlo \<and> findq_tester E iangle (pwidth / 2) acc qhi
            \<longrightarrow> roche_findq E iangle pwidth (Some acc) (Some dq) (Some qlo) (Some qhi)
                = Some ([findq_call E iangle (pwidth / 2) acc qlo,
                         findq_call E iangle (pwidth / 2) acc qhi], Inr (- 2)))
       \<and> (\<not> findq_tester E iangle (pwidth / 2) acc qlo \<and> \<not> findq_tester E iangle (pwidth / 2) acc qhi
            \<longrightarrow> roche_findq E iangle pwidth (Some acc) (Some dq) (Some qlo) (Some qhi)
                = Some ([findq_call E iangle (pwidth / 2) acc qlo,
                         findq_call E iangle (pwidth / 2) acc qhi], Inr (- 1)))"
  using assms by (simp add: roche_findq_def supplied_or_simps Let_def)

theorem findq_degenerate_sentinels_witness:
  "roche_findq demo_extern 80 0.05 (Some 0.0001) (Some 0.00001) (Some 2) (Some 3)
     = Some ([E_fblink 2 80 0.025 \<lparr>vec_x = 0, vec_y = 0, vec_z = 0\<rparr> SECONDARY 1 0.0001,
              E_fblink 3 80 0.025 \<lparr>vec_x = 0, vec_y = 0, vec_z = 0\<rparr> SECONDARY 1 0.0001], Inr (- 2))
   \<and> roche_findq demo_extern 80 0.05 (Some 0.0001) (Some 0.00001) (Some 0.5) (Some 1)
     = Some ([E_fblink 0.5 80 0.025 \<lparr>vec_x = 0, vec_y = 0, vec_z = 0\<rparr> SECONDARY 1 0.0001,
              E_fblink 1 80 0.025 \<lparr>vec_x = 0, vec_y = 0, vec_z = 0\<rparr> SECONDARY 1 0.0001], Inr (- 1))"
  using findq_degenerate_sentinels [of 80 "0.05" "0.0001" "0.00001" demo_extern 2 3]
        findq_degenerate_sentinels [of 80 "0.05" "0.0001" "0.00001" demo_extern "0.5" 1]
  by (simp add: findq_tester_def findq_call_def demo_extern_def)




text \<open>
  C8. \<^verbatim>\<open>roche_findq\<close> does not check the bracket: once the inclination, phase width, accuracy
  and step tolerance pass their checks, no \<open>qlo\<close> and \<open>qhi\<close> (also \<open>qhi \<le> qlo\<close>, also \<open>qlo \<le> 0\<close>) makes
  the outcome an error. When the computed \<open>qhi - qlo\<close> is at most \<open>dq\<close> and the eclipse test
  differs at the two ends, the loop body never runs (the eclipse test is called at the two
  ends only) and the result is the computed \<open>(qlo + qhi) / 2\<close>.
\<close>

theorem findq_bracket_unchecked:
  assumes "0 < iangle" "iangle \<le> 90" "0 < pwidth" "pwidth \<le> 0.25"
    and "0 < acc" "acc \<le> 0.1" "0 < dq" "dq \<le> 0.1"
  shows "(\<forall>tr e. roche_findq E iangle pwidth (Some acc) (Some dq) (Some qlo) (Some qhi)
            \<noteq> Some (tr, Inl e))
       \<and> (fl_sub qhi qlo \<le> dq
            \<and> findq_tester E iangle (pwidth / 2) acc qlo \<noteq> findq_tester E iangle (pwidth / 2) acc qhi
          \<longrightarrow> roche_findq E iangle pwidth (Some acc) (Some dq) (Some qlo) (Some qhi)
                = Some ([findq_call E iangle (pwidth / 2) acc qlo,
                         findq_call E iangle (pwidth / 2) acc qhi], Inr (fl_add qlo qhi / 2)))"
proof (intro conjI impI allI)
  fix tr e
  show "roche_findq E iangle pwidth (Some acc) (Some dq) (Some qlo) (Some qhi) \<noteq> Some (tr, Inl e)"
    using assms by (simp add: roche_findq_def supplied_or_simps Let_def split: option.splits)
next
  let ?tr = "[findq_call E iangle (pwidth / 2) acc qlo, findq_call E iangle (pwidth / 2) acc qhi]"
  assume h: "fl_sub qhi qlo \<le> dq
      \<and> findq_tester E iangle (pwidth / 2) acc qlo \<noteq> findq_tester E iangle (pwidth / 2) acc qhi"
  then have "findq_loop E iangle (pwidth / 2) acc dq qlo qhi ?tr = Some (qlo, qhi, ?tr)"
    by (simp add: findq_loop_skip)
  with h assms
  show "roche_findq E iangle pwidth (Some acc) (Some dq) (Some qlo) (Some qhi)
          = Some (?tr, Inr (fl_add qlo qhi / 2))"
    by (auto simp add: roche_findq_def supplied_or_simps Let_def)
qed

theorem findq_bracket_unchecked_witness:
  "(\<forall>tr e. roche_findq demo_extern 80 0.05 (Some 0.0001) (Some 0.00001) (Some (- 1)) (Some 0)
      \<noteq> Some (tr, Inl e))
   \<and> roche_findq demo_extern 80 0.05 (Some 0.0001) (Some 0.00001) (Some 2) (Some 1)
      = Some ([findq_call demo_extern 80 (0.05 / 2) 0.0001 2,
               findq_call demo_extern 80 (0.05 / 2) 0.0001 1], Inr (3 / 2))"
proof -
  have ends: "findq_tester demo_extern 80 (0.05 / 2) 0.0001 2
                \<noteq> findq_tester demo_extern 80 (0.05 / 2) 0.0001 1"
    by (simp add: findq_tester_def demo_extern_def)
  have narrow: "fl_sub 1 2 \<le> 0.00001" by (simp add: fl_sub_def rd_values)
  have mid: "fl_add 2 1 / 2 = 3 / 2" by (simp add: fl_add_def rd_values)
  have valid: "(0::real) < 80" "(80::real) \<le> 90" "(0::real) < 0.05" "(0.05::real) \<le> 0.25"
    "(0::real) < 0.0001" "(0.0001::real) \<le> 0.1" "(0::real) < 0.00001" "(0.00001::real) \<le> 0.1"
    by simp_all
  from findq_bracket_unchecked [OF valid, of demo_extern "- 1" 0]
    findq_bracket_unchecked [OF valid, of demo_extern 2 1] ends narrow
  show ?thesis by (simp only: mid) blast
qed

text \<open>
  C9. An optional argument of \<^verbatim>\<open>findq\<close> that is left out has the value \<open>acc = 1e-4\<close>,
  \<open>dq = 1e-5\<close>, \<open>qlo = 0.001\<close>, \<open>qhi = 2\<close>. With all four left out the first two calls of the eclipse
  test are made at \<open>0.001\<close> and at \<open>2\<close>, and the result differs from the one for \<open>qlo = 0.005\<close>,
  the value the documentation string of the method table advertises.
\<close>

theorem findq_defaults:
  assumes "0 < iangle" "iangle \<le> 90" "0 < pwidth" "pwidth \<le> 0.25"
  shows "roche_findq E iangle pwidth None None None None
           = roche_findq E iangle pwidth (Some 0.0001) (Some 0.00001) (Some 0.001) (Some 2)
       \<and> roche_findq E iangle pwidth None dq_arg qlo_arg qhi_arg
           = roche_findq E iangle pwidth (Some 0.0001) dq_arg qlo_arg qhi_arg
       \<and> roche_findq E iangle pwidth acc_arg None qlo_arg qhi_arg
           = roche_findq E iangle pwidth acc_arg (Some 0.00001) qlo_arg qhi_arg
       \<and> roche_findq E iangle pwidth acc_arg dq_arg None qhi_arg
           = roche_findq E iangle pwidth acc_arg dq_arg (Some 0.001) qhi_arg
       \<and> roche_findq E iangle pwidth acc_arg dq_arg qlo_arg None
           = roche_findq E iangle pwidth acc_arg dq_arg qlo_arg (Some 2)
       \<and> (\<exists>ext q. roche_findq E iangle pwidth None None None None
           = Some (findq_call E iangle (pwidth / 2) 0.0001 0.001
                     # findq_call E iangle (pwidth / 2) 0.0001 2 # ext, Inr q))
       \<and> roche_findq E iangle pwidth None None None None
           \<noteq> roche_findq E iangle pwidth None None (Some 0.005) None
       \<and> (\<exists>pre post. findq_doc = pre @ ''qlo=0.005'' @ post)"
proof -
  have d: "roche_findq E iangle pwidth None None None None
           = roche_findq E iangle pwidth (Some 0.0001) (Some 0.00001) (Some 0.001) (Some 2)"
    by (simp add: roche_findq_def supplied_or_simps)
  have each: "roche_findq E iangle pwidth None dq_arg qlo_arg qhi_arg
           = roche_findq E iangle pwidth (Some 0.0001) dq_arg qlo_arg qhi_arg"
    "roche_findq E iangle pwidth acc_arg None qlo_arg qhi_arg
           = roche_findq E iangle pwidth acc_arg (Some 0.00001) qlo_arg qhi_arg"
    "roche_findq E iangle pwidth acc_arg dq_arg None qhi_arg
           = roche_findq E iangle pwidth acc_arg dq_arg (Some 0.001) qhi_arg"
    "roche_findq E iangle pwidth acc_arg dq_arg qlo_arg None
           = roche_findq E iangle pwidth acc_arg dq_arg qlo_arg (Some 2)"
    by (simp_all add: roche_findq_def supplied_or_simps)
  have v: "(0::real) < 0.0001" "(0.0001::real) \<le> 0.1" "(0::real) < 0.00001" "(0.00001::real) \<le> 0.1"
    by simp_all
  have b1: "(0.001::real) \<le> 2" "\<bar>0.001::real\<bar> \<le> 2 ^ 40 * 0.00001" "\<bar>2::real\<bar> \<le> 2 ^ 40 * 0.00001"
    by simp_all
  have b2: "(0.005::real) \<le> 2" "\<bar>0.005::real\<bar> \<le> 2 ^ 40 * 0.00001" "\<bar>2::real\<bar> \<le> 2 ^ 40 * 0.00001"
    by simp_all
  from roche_findq_returns [OF assms v b1, of E]
  have s1: "\<exists>ext q. roche_findq E iangle pwidth None None None None
           = Some (findq_call E iangle (pwidth / 2) 0.0001 0.001
                     # findq_call E iangle (pwidth / 2) 0.0001 2 # ext, Inr q)"
    by (simp only: d)
  have e: "roche_findq E iangle pwidth None None (Some 0.005) None
           = roche_findq E iangle pwidth (Some 0.0001) (Some 0.00001) (Some 0.005) (Some 2)"
    by (simp add: roche_findq_def supplied_or_simps)
  from roche_findq_returns [OF assms v b2, of E]
  have s2: "\<exists>ext q. roche_findq E iangle pwidth None None (Some 0.005) None
           = Some (findq_call E iangle (pwidth / 2) 0.0001 0.005
                     # findq_call E iangle (pwidth / 2) 0.0001 2 # ext, Inr q)"
    by (simp only: e)
  have "findq_call E iangle (pwidth / 2) 0.0001 0.001 \<noteq> findq_call E iangle (pwidth / 2) 0.0001 0.005"
    by (simp add: findq_call_def)
  with s1 s2 have ne: "roche_findq E iangle pwidth None None None None
           \<noteq> roche_findq E iangle pwidth None None (Some 0.005) None"
    by auto
  from d each s1 ne findq_doc_qlo show ?thesis by blast
qed

theorem findq_defaults_witness:
  "(\<exists>ext q. roche_findq demo_extern 80 0.05 None None None None
      = Some (findq_call demo_extern 80 (0.05 / 2) 0.0001 0.001
                # findq_call demo_extern 80 (0.05 / 2) 0.0001 2 # ext, Inr q))
   \<and> roche_findq demo_extern 80 0.05 None None None None
      \<noteq> roche_findq demo_extern 80 0.05 None None (Some 0.005) None"
proof -
  have "(0::real) < 80" "(80::real) \<le> 90" "(0::real) < 0.05" "(0.05::real) \<le> 0.25"
    by simp_all
  from findq_defaults [OF this, where E = demo_extern] show ?thesis
    by blast
qed

subsection \<open>vstream: the stream-type selector\<close>

text \<open>
  C3 (the code departs from the claim). The claim: a stream-type selector outside \<open>{1, 2}\<close> is
  rejected before any computation. The test of line 388, \<^verbatim>\<open>stype < 1 && stype > 2\<close>, is false for
  every \<^verbatim>\<open>stype\<close>: \<^verbatim>\<open>roche_vstream\<close> never returns the error "stype must be 1 or 2", and with the
  other arguments in range it allocates the array and calls \<^verbatim>\<open>Roche::vstrreg\<close> with whatever
  \<^verbatim>\<open>stype\<close> it was given.
\<close>

theorem vstream_stype_unchecked:
  "roche_vstream E q step_arg stype_arg n_arg
     \<noteq> ([], Inl (PyErr PyExc_ValueError ''roche.vstream: stype must be 1 or 2''))
   \<and> (0 < q \<and> 0 < step \<and> step < 1 \<and> 2 \<le> sint n \<and> PyArray_SimpleNew_ok E [2, nat (sint n)]
        \<longrightarrow> fst (roche_vstream E q (Some step) (Some stype) (Some n))
              = [E_PyArray_SimpleNew [2, nat (sint n)], E_vstrreg q step n stype])"
  by (auto simp add: roche_vstream_def supplied_or_simps value_error_def Let_def
        stype_test_dead split: sum.splits)

theorem vstream_stype_unchecked_witness:
  "roche_vstream demo_extern 1 (Some 0.01) (Some 3) (Some 60)
     \<noteq> ([], Inl (PyErr PyExc_ValueError ''roche.vstream: stype must be 1 or 2''))
   \<and> fst (roche_vstream demo_extern 1 (Some 0.01) (Some 3) (Some 60))
     = [E_PyArray_SimpleNew [2, 60], E_vstrreg 1 0.01 60 3]"
proof -
  have "PyArray_SimpleNew_ok demo_extern [2, nat (sint (60 :: c_int))]"
    by (simp add: demo_extern_def)
  with vstream_stype_unchecked [of demo_extern 1 "Some 0.01" "Some 3" "Some 60" "0.01" 60 3]
  show ?thesis by simp
qed

subsection \<open>Argument checks at the documented boundary values\<close>

text \<open>
  C5. Each of these calls fails with a \<^verbatim>\<open>ValueError\<close> and makes no external call (no routine of
  \<^verbatim>\<open>Roche\<close> is run, no array is allocated), whatever the other arguments are: \<^verbatim>\<open>lobe1\<close> and \<^verbatim>\<open>lobe2\<close>
  with \<open>n = 1\<close>; \<^verbatim>\<open>fblink\<close> with inclination \<open>0\<close>; \<^verbatim>\<open>fblink\<close> with inclination \<open>91\<close>; \<^verbatim>\<open>vstream\<close> with
  \<open>step = 1.0\<close>; \<^verbatim>\<open>findq\<close> with \<open>acc = 0.2\<close>. The message is that of the first check that fails.
\<close>

theorem boundary_literals_rejected:
  "roche_lobe1 E q (Some 1)
     = ([], Inl (PyErr PyExc_ValueError
              (if q \<le> 0 then ''roche.lobe1: q <= 0'' else ''roche.lobe1: n < 2'')))
   \<and> roche_lobe2 E q (Some 1)
     = ([], Inl (PyErr PyExc_ValueError
              (if q \<le> 0 then ''roche.lobe2: q <= 0'' else ''roche.lobe2: n < 2 in'')))
   \<and> roche_fblink E q 0 phi x y z ffac_arg acc_arg star_arg
     = ([], Inl (PyErr PyExc_ValueError
              (if q \<le> 0 then ''roche.fblink: q <= 0''
               else ''roche.fblink: iangle out of range 0 to 90'')))
   \<and> roche_fblink E q 91 phi x y z ffac_arg acc_arg star_arg
     = ([], Inl (PyErr PyExc_ValueError
              (if q \<le> 0 then ''roche.fblink: q <= 0''
               else ''roche.fblink: iangle out of range 0 to 90'')))
   \<and> roche_vstream E q (Some 1.0) stype_arg n_arg
     = ([], Inl (PyErr PyExc_ValueError
              (if q \<le> 0 then ''roche.vstream: q <= 0''
               else ''roche.vstream: step <= 0 or >= 1.'')))
   \<and> roche_findq E iangle pwidth (Some 0.2) dq_arg qlo_arg qhi_arg
     = Some ([], Inl (PyErr PyExc_ValueError
              (if iangle \<le> 0 \<or> iangle > 90 then ''roche.findq: iangle out of range 0 to 90''
               else if pwidth \<le> 0 \<or> pwidth > 0.25
                 then ''roche.findq: pwidth out of range 0 to 0.25''
               else ''roche.findq: acc <= 0 or acc > 0.1'')))"
  by (simp add: roche_lobe1_def roche_lobe2_def roche_fblink_def roche_vstream_def
        roche_findq_def supplied_or_simps value_error_def Let_def)

theorem boundary_literals_rejected_witness:
  "roche_lobe1 demo_extern 1 (Some 1) = ([], Inl (PyErr PyExc_ValueError ''roche.lobe1: n < 2''))
   \<and> roche_lobe2 demo_extern 1 (Some 1)
     = ([], Inl (PyErr PyExc_ValueError ''roche.lobe2: n < 2 in''))
   \<and> roche_fblink demo_extern 1 0 0 0 0 0 None None None
     = ([], Inl (PyErr PyExc_ValueError ''roche.fblink: iangle out of range 0 to 90''))
   \<and> roche_fblink demo_extern 1 91 0 0 0 0 None None None
     = ([], Inl (PyErr PyExc_ValueError ''roche.fblink: iangle out of range 0 to 90''))
   \<and> roche_vstream demo_extern 1 (Some 1.0) None None
     = ([], Inl (PyErr PyExc_ValueError ''roche.vstream: step <= 0 or >= 1.''))
   \<and> roche_findq demo_extern 80 0.05 (Some 0.2) None None None
     = Some ([], Inl (PyErr PyExc_ValueError ''roche.findq: acc <= 0 or acc > 0.1''))"
  using boundary_literals_rejected [of demo_extern 1 0 0 0 0 None None None None None 80 "0.05" None None None]
  by simp

subsection \<open>The size of the returned arrays\<close>

text \<open>
  C6. For every \<open>q > 0\<close> and \<open>n \<ge> 2\<close>, with the other arguments in their documented ranges
  (\<open>0 \<le> rad \<le> 1\<close> for \<^verbatim>\<open>stream\<close>, \<open>0 < step < 1\<close> for \<^verbatim>\<open>vstream\<close>), a successful allocation and, for
  \<^verbatim>\<open>vstream\<close>, a call of \<^verbatim>\<open>Roche::vstrreg\<close> that does not throw: \<^verbatim>\<open>lobe1\<close>, \<^verbatim>\<open>lobe2\<close>, \<^verbatim>\<open>vlobe1\<close>, \<^verbatim>\<open>vlobe2\<close>,
  \<^verbatim>\<open>stream\<close> and \<^verbatim>\<open>vstream\<close> return a 2-by-n array holding exactly \<open>n\<close> coordinate pairs, those the
  routine wrote. The array is allocated with that shape first and the routine is called
  second; the array returned has one reference, the one handed to the caller.
\<close>

theorem curve_bindings_return_n_pairs:
  assumes "0 < q" "2 \<le> sint n" "PyArray_SimpleNew_ok E [2, nat (sint n)]"
  shows "(\<exists>a. roche_lobe1 E q (Some n)
              = ([E_PyArray_SimpleNew [2, nat (sint n)], E_lobe1 q n], Inr a)
            \<and> holds_n_pairs (nat (sint n)) (Roche_lobe1 E q n) a \<and> ob_refcnt a = 1)
       \<and> (\<exists>a. roche_lobe2 E q (Some n)
              = ([E_PyArray_SimpleNew [2, nat (sint n)], E_lobe2 q n], Inr a)
            \<and> holds_n_pairs (nat (sint n)) (Roche_lobe2 E q n) a \<and> ob_refcnt a = 1)
       \<and> (\<exists>a. roche_vlobe1 E q (Some n)
              = ([E_PyArray_SimpleNew [2, nat (sint n)], E_vlobe1 q n], Inr a)
            \<and> holds_n_pairs (nat (sint n)) (Roche_vlobe1 E q n) a \<and> ob_refcnt a = 1)
       \<and> (\<exists>a. roche_vlobe2 E q (Some n)
              = ([E_PyArray_SimpleNew [2, nat (sint n)], E_vlobe2 q n], Inr a)
            \<and> holds_n_pairs (nat (sint n)) (Roche_vlobe2 E q n) a \<and> ob_refcnt a = 1)
       \<and> (0 \<le> rad \<and> rad \<le> 1 \<longrightarrow>
            (\<exists>a. roche_stream E q rad (Some n)
                = ([E_PyArray_SimpleNew [2, nat (sint n)], E_streamr q rad n], Inr a)
              \<and> holds_n_pairs (nat (sint n)) (Roche_streamr E q rad n) a \<and> ob_refcnt a = 1))
       \<and> (0 < step \<and> step < 1 \<and> Roche_vstrreg E q step n stype = Inr vxy \<longrightarrow>
            (\<exists>a. roche_vstream E q (Some step) (Some stype) (Some n)
                = ([E_PyArray_SimpleNew [2, nat (sint n)], E_vstrreg q step n stype], Inr a)
              \<and> holds_n_pairs (nat (sint n)) vxy a \<and> ob_refcnt a = 1))"
proof (intro conjI impI)
  show "\<exists>a. roche_lobe1 E q (Some n)
              = ([E_PyArray_SimpleNew [2, nat (sint n)], E_lobe1 q n], Inr a)
            \<and> holds_n_pairs (nat (sint n)) (Roche_lobe1 E q n) a \<and> ob_refcnt a = 1"
    using assms curve_array_ok [OF assms(3)] by (simp add: roche_lobe1_def supplied_or_simps)
  show "\<exists>a. roche_lobe2 E q (Some n)
              = ([E_PyArray_SimpleNew [2, nat (sint n)], E_lobe2 q n], Inr a)
            \<and> holds_n_pairs (nat (sint n)) (Roche_lobe2 E q n) a \<and> ob_refcnt a = 1"
    using assms curve_array_ok [OF assms(3)] by (simp add: roche_lobe2_def supplied_or_simps)
  show "\<exists>a. roche_vlobe1 E q (Some n)
              = ([E_PyArray_SimpleNew [2, nat (sint n)], E_vlobe1 q n], Inr a)
            \<and> holds_n_pairs (nat (sint n)) (Roche_vlobe1 E q n) a \<and> ob_refcnt a = 1"
    using assms curve_array_ok [OF assms(3)] by (simp add: roche_vlobe1_def supplied_or_simps)
  show "\<exists>a. roche_vlobe2 E q (Some n)
              = ([E_PyArray_SimpleNew [2, nat (sint n)], E_vlobe2 q n], Inr a)
            \<and> holds_n_pairs (nat (sint n)) (Roche_vlobe2 E q n) a \<and> ob_refcnt a = 1"
    using assms curve_array_ok [OF assms(3)] by (simp add: roche_vlobe2_def supplied_or_simps)
next
  assume "0 \<le> rad \<and> rad \<le> 1"
  then show "\<exists>a. roche_stream E q rad (Some n)
                = ([E_PyArray_SimpleNew [2, nat (sint n)], E_streamr q rad n], Inr a)
              \<and> holds_n_pairs (nat (sint n)) (Roche_streamr E q rad n) a \<and> ob_refcnt a = 1"
    using assms curve_array_ok [OF assms(3)] by (simp add: roche_stream_def supplied_or_simps)
next
  assume "0 < step \<and> step < 1 \<and> Roche_vstrreg E q step n stype = Inr vxy"
  then show "\<exists>a. roche_vstream E q (Some step) (Some stype) (Some n)
                = ([E_PyArray_SimpleNew [2, nat (sint n)], E_vstrreg q step n stype], Inr a)
              \<and> holds_n_pairs (nat (sint n)) vxy a \<and> ob_refcnt a = 1"
    using assms write_xy_new_pairs [of n vxy] write_xy_new_refcnt [of n vxy "[2, nat (sint n)]"]
    by (simp add: roche_vstream_def supplied_or_simps Let_def stype_test_dead)
qed

theorem curve_bindings_return_n_pairs_witness:
  "(\<exists>a. roche_lobe1 demo_extern 1 (Some 3) = ([E_PyArray_SimpleNew [2, 3], E_lobe1 1 3], Inr a)
        \<and> holds_n_pairs 3 (Roche_lobe1 demo_extern 1 3) a \<and> ob_refcnt a = 1)
   \<and> (\<exists>a. roche_stream demo_extern 1 0.5 (Some 3)
          = ([E_PyArray_SimpleNew [2, 3], E_streamr 1 0.5 3], Inr a)
        \<and> holds_n_pairs 3 (Roche_streamr demo_extern 1 0.5 3) a \<and> ob_refcnt a = 1)
   \<and> (\<exists>a. roche_vstream demo_extern 1 (Some 0.01) (Some 1) (Some 3)
          = ([E_PyArray_SimpleNew [2, 3], E_vstrreg 1 0.01 3 1], Inr a)
        \<and> holds_n_pairs 3 (\<lambda>i. 0.01 * real i, \<lambda>i. 1) a \<and> ob_refcnt a = 1)"
proof -
  have n: "nat (sint (3 :: c_int)) = 3" and n2: "2 \<le> sint (3 :: c_int)" by simp_all
  have ok: "PyArray_SimpleNew_ok demo_extern [2, nat (sint (3 :: c_int))]"
    by (simp add: demo_extern_def)
  have run: "Roche_vstrreg demo_extern 1 0.01 3 1 = Inr (\<lambda>i. 0.01 * real i, \<lambda>i. 1)"
    by (simp add: demo_extern_def)
  have "(0::real) < 1" by simp
  from curve_bindings_return_n_pairs
         [OF this n2 ok, of "0.5" "0.01" 1 "(\<lambda>i. 0.01 * real i, \<lambda>i. 1)"] run
  show ?thesis unfolding n by simp
qed

subsection \<open>strmnx\<close>

text \<open>
  C7. For every \<open>q \<ge> 0\<close>, \<open>n \<ge> 1\<close> and \<open>acc > 0\<close>, \<^verbatim>\<open>roche_strmnx\<close> calls \<^verbatim>\<open>Roche::strinit\<close> once, then
  \<^verbatim>\<open>Roche::strmnx\<close> exactly \<open>n\<close> times, each on the position and velocity the previous call left,
  then \<^verbatim>\<open>Roche::vtrans\<close> once with type 1 and once with type 2 on the final position and
  velocity; it returns the final \<open>x\<close>, \<open>y\<close> and the two transformed velocities. With \<open>n\<close> left out
  it is the call for \<open>n = 1\<close>.
\<close>

theorem strmnx_nth_turning_point:
  assumes "0 \<le> q" "1 \<le> sint n" "0 < acc"
  shows "roche_strmnx E q (Some n) (Some acc)
           = (let rv = ((\<lambda>s. Roche_strmnx E q s acc) ^^ nat (sint n)) (Roche_strinit E q);
                  r = fst rv;
                  v = snd rv;
                  t1 = Roche_vtrans E q 1 (vec_x r) (vec_y r) (vec_x v) (vec_y v);
                  t2 = Roche_vtrans E q 2 (vec_x r) (vec_y r) (vec_x v) (vec_y v)
              in (E_strinit q # replicate (nat (sint n)) (E_strmnx q acc)
                    @ [E_vtrans q 1, E_vtrans q 2],
                  Inr (vec_x r, vec_y r, fst t1, snd t1, fst t2, snd t2)))
       \<and> roche_strmnx E q None (Some acc) = roche_strmnx E q (Some 1) (Some acc)"
proof -
  have "sint (0 :: c_int) \<le> sint n" using assms(2) by simp
  from strmnx_loop_iterates [OF this, of E q acc "Roche_strinit E q" "[E_strinit q]"]
  have loop: "strmnx_loop E q acc n 0 (Roche_strinit E q) [E_strinit q]
          = (((\<lambda>s. Roche_strmnx E q s acc) ^^ nat (sint n)) (Roche_strinit E q),
             [E_strinit q] @ replicate (nat (sint n)) (E_strmnx q acc))"
    by simp
  have "roche_strmnx E q None (Some acc) = roche_strmnx E q (Some 1) (Some acc)"
    by (simp add: roche_strmnx_def supplied_or_simps)
  moreover have "roche_strmnx E q (Some n) (Some acc)
           = (let rv = ((\<lambda>s. Roche_strmnx E q s acc) ^^ nat (sint n)) (Roche_strinit E q);
                  r = fst rv;
                  v = snd rv;
                  t1 = Roche_vtrans E q 1 (vec_x r) (vec_y r) (vec_x v) (vec_y v);
                  t2 = Roche_vtrans E q 2 (vec_x r) (vec_y r) (vec_x v) (vec_y v)
              in (E_strinit q # replicate (nat (sint n)) (E_strmnx q acc)
                    @ [E_vtrans q 1, E_vtrans q 2],
                  Inr (vec_x r, vec_y r, fst t1, snd t1, fst t2, snd t2)))"
    using assms by (simp add: roche_strmnx_def supplied_or_simps loop Let_def split_beta)
  ultimately show ?thesis by simp
qed

theorem strmnx_nth_turning_point_witness:
  "roche_strmnx demo_extern 0.5 (Some 3) (Some 0.0000001)
     = ([E_strinit 0.5, E_strmnx 0.5 0.0000001, E_strmnx 0.5 0.0000001, E_strmnx 0.5 0.0000001,
         E_vtrans 0.5 1, E_vtrans 0.5 2],
        Inr (3.5, 0, 3.5, 2, 3.5, 3))
   \<and> roche_strmnx demo_extern 0.5 None (Some 0.0000001)
     = roche_strmnx demo_extern 0.5 (Some 1) (Some 0.0000001)"
proof -
  have three: "nat (sint (3 :: c_int)) = Suc (Suc (Suc 0))" by simp
  have "(0::real) \<le> 0.5" "1 \<le> sint (3 :: c_int)" "(0::real) < 0.0000001" by simp_all
  from strmnx_nth_turning_point [OF this, of demo_extern]
  show ?thesis unfolding three by (simp add: demo_extern_def Let_def)
qed

subsection \<open>The kind of the errors\<close>

text \<open>
  C4, as amended. The claim as stated (a domain error of \<^verbatim>\<open>ineg\<close> or \<^verbatim>\<open>vstream\<close> is of another kind
  than the error for a violated precondition) fails: both are raised with \<^verbatim>\<open>PyExc_ValueError\<close>;
  four calls are evaluated after the theorem.

  What holds: every error \<^verbatim>\<open>roche_ineg\<close> and \<^verbatim>\<open>roche_vstream\<close> set themselves is a \<^verbatim>\<open>ValueError\<close>. When
  all checks of \<^verbatim>\<open>ineg\<close> pass and the point is never eclipsed the message is
  "roche.ineg: point is not eclipsed", and no error raised before the routine is called has
  that message. When all checks of \<^verbatim>\<open>vstream\<close> pass and \<^verbatim>\<open>Roche::vstrreg\<close> throws, the message is
  "roche.vstream: " followed by the text thrown.
\<close>

theorem errors_are_value_errors:
  "(exc_type_of (roche_ineg E q iangle x y z ffac_arg delta_arg star_arg) = None
      \<or> exc_type_of (roche_ineg E q iangle x y z ffac_arg delta_arg star_arg) = Some PyExc_ValueError)
   \<and> (exc_type_of (roche_vstream E q step_arg stype_arg n_arg) = None
      \<or> exc_type_of (roche_vstream E q step_arg stype_arg n_arg) = Some PyExc_ValueError)
   \<and> (0 < q \<and> 0 < iangle \<and> iangle \<le> 90 \<and> 0 < ffac \<and> ffac \<le> 1 \<and> 0 < delta
        \<and> 1 \<le> sint star \<and> sint star \<le> 2
        \<and> Roche_ingress_egress E q ffac iangle \<lparr>vec_x = x, vec_y = y, vec_z = z\<rparr> delta (star_of star)
            = None
      \<longrightarrow> roche_ineg E q iangle x y z (Some ffac) (Some delta) (Some star)
            = ([E_ingress_egress q ffac iangle \<lparr>vec_x = x, vec_y = y, vec_z = z\<rparr> delta (star_of star)],
               Inl (PyErr PyExc_ValueError ''roche.ineg: point is not eclipsed'')))
   \<and> (fst (roche_ineg E q iangle x y z ffac_arg delta_arg star_arg) = []
      \<longrightarrow> snd (roche_ineg E q iangle x y z ffac_arg delta_arg star_arg)
            \<noteq> Inl (PyErr PyExc_ValueError ''roche.ineg: point is not eclipsed''))
   \<and> (0 < q \<and> 0 < step \<and> step < 1 \<and> 2 \<le> sint n \<and> PyArray_SimpleNew_ok E [2, nat (sint n)]
        \<and> Roche_vstrreg E q step n stype = Inl err
      \<longrightarrow> roche_vstream E q (Some step) (Some stype) (Some n)
            = ([E_PyArray_SimpleNew [2, nat (sint n)], E_vstrreg q step n stype],
               Inl (PyErr PyExc_ValueError (''roche.vstream: '' @ err))))"
proof (intro conjI impI)
  show "exc_type_of (roche_ineg E q iangle x y z ffac_arg delta_arg star_arg) = None
      \<or> exc_type_of (roche_ineg E q iangle x y z ffac_arg delta_arg star_arg) = Some PyExc_ValueError"
    by (simp add: roche_ineg_def value_error_def Let_def split: option.splits)
  show "exc_type_of (roche_vstream E q step_arg stype_arg n_arg) = None
      \<or> exc_type_of (roche_vstream E q step_arg stype_arg n_arg) = Some PyExc_ValueError"
    by (simp add: roche_vstream_def value_error_def Let_def split: sum.splits)
next
  assume "0 < q \<and> 0 < iangle \<and> iangle \<le> 90 \<and> 0 < ffac \<and> ffac \<le> 1 \<and> 0 < delta
        \<and> 1 \<le> sint star \<and> sint star \<le> 2
        \<and> Roche_ingress_egress E q ffac iangle \<lparr>vec_x = x, vec_y = y, vec_z = z\<rparr> delta (star_of star)
            = None"
  then show "roche_ineg E q iangle x y z (Some ffac) (Some delta) (Some star)
            = ([E_ingress_egress q ffac iangle \<lparr>vec_x = x, vec_y = y, vec_z = z\<rparr> delta (star_of star)],
               Inl (PyErr PyExc_ValueError ''roche.ineg: point is not eclipsed''))"
    by (simp add: roche_ineg_def supplied_or_simps Let_def)
next
  assume "fst (roche_ineg E q iangle x y z ffac_arg delta_arg star_arg) = []"
  then show "snd (roche_ineg E q iangle x y z ffac_arg delta_arg star_arg)
            \<noteq> Inl (PyErr PyExc_ValueError ''roche.ineg: point is not eclipsed'')"
    by (simp add: roche_ineg_def value_error_def Let_def split: if_splits option.splits)
next
  assume "0 < q \<and> 0 < step \<and> step < 1 \<and> 2 \<le> sint n \<and> PyArray_SimpleNew_ok E [2, nat (sint n)]
        \<and> Roche_vstrreg E q step n stype = Inl err"
  then show "roche_vstream E q (Some step) (Some stype) (Some n)
            = ([E_PyArray_SimpleNew [2, nat (sint n)], E_vstrreg q step n stype],
               Inl (PyErr PyExc_ValueError (''roche.vstream: '' @ err)))"
    by (simp add: roche_vstream_def supplied_or_simps Let_def stype_test_dead)
qed

theorem errors_are_value_errors_witness:
  "roche_ineg demo_extern 1 80 0 0 2 (Some 1) (Some 0.0000001) (Some 2)
     = ([E_ingress_egress 1 1 80 \<lparr>vec_x = 0, vec_y = 0, vec_z = 2\<rparr> 0.0000001 SECONDARY],
        Inl (PyErr PyExc_ValueError ''roche.ineg: point is not eclipsed''))
   \<and> snd (roche_ineg demo_extern 0 80 0 0 2 None None None)
     \<noteq> Inl (PyErr PyExc_ValueError ''roche.ineg: point is not eclipsed'')
   \<and> roche_vstream demo_extern 1 (Some 0.01) (Some 1) (Some 200)
     = ([E_PyArray_SimpleNew [2, 200], E_vstrreg 1 0.01 200 1],
        Inl (PyErr PyExc_ValueError ''roche.vstream: too few points''))"
proof -
  have never: "Roche_ingress_egress demo_extern 1 1 80 \<lparr>vec_x = 0, vec_y = 0, vec_z = 2\<rparr>
                 0.0000001 (star_of 2) = None"
    by (simp add: demo_extern_def)
  have star: "star_of 2 = SECONDARY" by (simp add: star_of_def)
  have early: "fst (roche_ineg demo_extern 0 80 0 0 2 None None None) = []"
    by (simp add: roche_ineg_def value_error_def)
  have ok: "PyArray_SimpleNew_ok demo_extern [2, nat (sint (200 :: c_int))]"
    by (simp add: demo_extern_def)
  have thrown: "Roche_vstrreg demo_extern 1 0.01 200 1 = Inl ''too few points''"
    by (simp add: demo_extern_def)
  have n: "nat (sint (200 :: c_int)) = 200" by simp
  from errors_are_value_errors
         [of demo_extern 1 80 0 0 2 "Some 1" "Some 0.0000001" "Some 2" "Some 0.01" "Some 1"
             "Some 200" 1 "0.0000001" 2 "0.01" 200 1 "''too few points''"]
       errors_are_value_errors
         [of demo_extern 0 80 0 0 2 None None None None None None 1 1 2 1 2 1 "[]"]
       never early ok thrown
  show ?thesis unfolding star n by simp
qed

text \<open>
  The claim C4 as stated fails: for \<^verbatim>\<open>ineg\<close> the error for a point that is never eclipsed and
  the error for \<open>q = 0\<close> have the same exception class, and so have, for \<^verbatim>\<open>vstream\<close>, the error
  for a stream that cannot be sampled 200 times and the error for \<open>q = 0\<close>.
\<close>

theorem error_kinds_counterexample:
  "exc_type_of (roche_ineg demo_extern 1 80 0 0 2 None None None)
     = exc_type_of (roche_ineg demo_extern 0 80 0 0 2 None None None)
   \<and> roche_ineg demo_extern 1 80 0 0 2 None None None
     = ([E_ingress_egress 1 1 80 \<lparr>vec_x = 0, vec_y = 0, vec_z = 2\<rparr> 0.0000001 SECONDARY],
        Inl (PyErr PyExc_ValueError ''roche.ineg: point is not eclipsed''))
   \<and> roche_ineg demo_extern 0 80 0 0 2 None None None
     = ([], Inl (PyErr PyExc_ValueError ''roche.ineg: q <= 0''))
   \<and> exc_type_of (roche_vstream demo_extern 1 None None (Some 200))
     = exc_type_of (roche_vstream demo_extern 0 None None (Some 200))
   \<and> roche_vstream demo_extern 1 None None (Some 200)
     = ([E_PyArray_SimpleNew [2, 200], E_vstrreg 1 0.01 200 1],
        Inl (PyErr PyExc_ValueError ''roche.vstream: too few points''))
   \<and> roche_vstream demo_extern 0 None None (Some 200)
     = ([], Inl (PyErr PyExc_ValueError ''roche.vstream: q <= 0''))"
  by (simp add: roche_ineg_def roche_vstream_def supplied_or_simps value_error_def Let_def
        star_of_def demo_extern_def)

subsection \<open>xl1, xl2, xl3\<close>

text \<open>
  C10, as amended. The claim as stated (the value delivered is the engine's double rounded
  to the nearest single-precision float) fails: \<^verbatim>\<open>Py_BuildValue("f", x)\<close> is given the C \<^verbatim>\<open>double x\<close>
  and builds a Python float from it without rounding; a double that is not a float is
  evaluated after the theorem.

  What holds: for every \<open>q \<ge> 0\<close>, \<^verbatim>\<open>xl1\<close>, \<^verbatim>\<open>xl2\<close> and \<^verbatim>\<open>xl3\<close> call the routine once and return the
  double it returned, unchanged.
\<close>

theorem xl_returns_engine_double:
  assumes "0 \<le> q"
  shows "roche_xl1 E q = ([E_xl1 q], Inr (Roche_xl1 E q))
       \<and> roche_xl2 E q = ([E_xl2 q], Inr (Roche_xl2 E q))
       \<and> roche_xl3 E q = ([E_xl3 q], Inr (Roche_xl3 E q))"
  using assms by (simp add: roche_xl1_def roche_xl2_def roche_xl3_def Py_BuildValue_f_def)

theorem xl_returns_engine_double_witness:
  "roche_xl1 demo_extern 1 = ([E_xl1 1], Inr (6004799503160661 / 2 ^ 54))
   \<and> roche_xl2 demo_extern 1 = ([E_xl2 1], Inr 2)
   \<and> roche_xl3 demo_extern 1 = ([E_xl3 1], Inr (- 2))"
  using xl_returns_engine_double [of 1 demo_extern] by (simp add: demo_extern_def)

text \<open>
  The claim C10 as stated fails when \<^verbatim>\<open>Roche::xl1\<close> returns the double nearest to 1/3,
  \<open>6004799503160661 / 2^54\<close>: the nearest float is \<open>11184811 / 2^25\<close>, and the binding returns the
  double.
\<close>

theorem xl_single_precision_counterexample:
  "roche_xl1 demo_extern 1 = ([E_xl1 1], Inr (6004799503160661 / 2 ^ 54))
   \<and> is_double (Roche_xl1 demo_extern 1)
   \<and> round_to_float (Roche_xl1 demo_extern 1) = 11184811 / 2 ^ 25
   \<and> snd (roche_xl1 demo_extern 1) \<noteq> Inr (round_to_float (Roche_xl1 demo_extern 1))"
proof -
  have v: "Roche_xl1 demo_extern 1 = 6004799503160661 / 2 ^ 54" by (simp add: demo_extern_def)
  have r: "roche_xl1 demo_extern 1 = ([E_xl1 1], Inr (6004799503160661 / 2 ^ 54))"
    by (simp add: roche_xl1_def Py_BuildValue_f_def v)
  have d: "is_double (6004799503160661 / 2 ^ 54)"
    using is_double_dyadic [of 6004799503160661 54] by simp
  have "(6004799503160661 / 2 ^ 54 :: real) \<noteq> 11184811 / 2 ^ 25" by simp
  with r d float_of_third show ?thesis unfolding v by simp
qed

end
